theory Spec2Isabelle
  imports Complex_Main "HOL-Library.Char_ord" "HOL-Library.List_Lexorder"
begin

section \<open>JavaScript values\<close>

text \<open>
  The dashboard is JavaScript: every function below takes and returns dynamically typed
  values. The values that reach the code come from JSON payloads and from text inputs, so
  a value is \<open>undefined\<close>, \<open>null\<close>, a boolean, a number, a string, an array
  or a plain object. An object is the list of its own properties in enumeration order.

  A finite number is kept as the exact rational it denotes; \<open>NaN\<close> and the two
  infinities are separate values. The range of a binary64 is modelled (a result too large
  becomes an infinity, one too small becomes zero), its 53-bit precision is not: sums and
  products of finite numbers are exact. Negative zero is not distinguished from zero.
  A string is a list of code units below 256.
\<close>

datatype jsnum = Fin rat | NaN | PosInf | NegInf

datatype jsval =
    JUndefined
  | JNull
  | JBool bool
  | JNum jsnum
  | JStr string
  | JArr "jsval list"
  | JObj "(string \<times> jsval) list"

subsection \<open>Strings\<close>

definition startsWith :: "string \<Rightarrow> string \<Rightarrow> bool" where
  "startsWith s p = (take (length p) s = p)"

definition endsWith :: "string \<Rightarrow> string \<Rightarrow> bool" where
  "endsWith s p = (length p \<le> length s \<and> drop (length s - length p) s = p)"

text \<open>\<open>find_at sub s k\<close> scans \<open>s\<close>, whose first code unit has index \<open>k\<close>, for the
  first occurrence of \<open>sub\<close>; \<open>-1\<close> when there is none.\<close>

fun find_at :: "string \<Rightarrow> string \<Rightarrow> nat \<Rightarrow> int" where
  "find_at sub [] k = (if sub = [] then int k else -1)"
| "find_at sub (c # cs) k =
     (if startsWith (c # cs) sub then int k else find_at sub cs (Suc k))"

definition indexOf :: "string \<Rightarrow> string \<Rightarrow> nat \<Rightarrow> int" where
  "indexOf s sub pos = (let p = min pos (length s) in find_at sub (drop p s) p)"

definition str_includes :: "string \<Rightarrow> string \<Rightarrow> bool" where
  "str_includes s sub = (indexOf s sub 0 \<noteq> -1)"

text \<open>\<open>slice\<close> of strings and arrays: a negative index counts from the end, and both
  ends are clamped to the length.\<close>

definition clamp_index :: "nat \<Rightarrow> int \<Rightarrow> nat" where
  "clamp_index len i = (if i < 0 then nat (int len + i) else min (nat i) len)"

definition slice :: "'a list \<Rightarrow> int \<Rightarrow> int \<Rightarrow> 'a list" where
  "slice xs from to =
     (let a = clamp_index (length xs) from; b = clamp_index (length xs) to
      in take (b - a) (drop a xs))"

definition slice_from :: "'a list \<Rightarrow> int \<Rightarrow> 'a list" where
  "slice_from xs from = drop (clamp_index (length xs) from) xs"

definition lower_char :: "char \<Rightarrow> char" where
  "lower_char c =
     (let n = (of_char c :: nat)
      in if (65 \<le> n \<and> n \<le> 90) \<or> (192 \<le> n \<and> n \<le> 222 \<and> n \<noteq> 215)
         then char_of (n + 32) else c)"

definition toLowerCase :: "string \<Rightarrow> string" where
  "toLowerCase s = map lower_char s"

text \<open>White space of \<open>trim\<close>, of \<open>\s\<close> and of the numeric grammar: tab, line feed,
  vertical tab, form feed, carriage return, space and no-break space.\<close>

definition is_space :: "char \<Rightarrow> bool" where
  "is_space c = ((of_char c :: nat) \<in> {9, 10, 11, 12, 13, 32, 160})"

definition trim :: "string \<Rightarrow> string" where
  "trim s = rev (dropWhile is_space (rev (dropWhile is_space s)))"

definition is_digit :: "char \<Rightarrow> bool" where
  "is_digit c = (48 \<le> (of_char c :: nat) \<and> (of_char c :: nat) \<le> 57)"

fun join :: "string \<Rightarrow> string list \<Rightarrow> string" where
  "join sep [] = []"
| "join sep [x] = x"
| "join sep (x # y # ys) = x @ sep @ join sep (y # ys)"

subsection \<open>Numbers\<close>

definition pow10 :: "int \<Rightarrow> rat" where
  "pow10 e = (if 0 \<le> e then 10 ^ nat e else 1 / 10 ^ nat (- e))"

text \<open>The range of a binary64: a magnitude of at least \<open>2^1024 - 2^970\<close> rounds to an
  infinity, one of at most \<open>2^-1075\<close> rounds to zero.\<close>

definition overflow_bound :: rat where
  "overflow_bound = 2 ^ 1024 - 2 ^ 970"

definition underflow_bound :: rat where
  "underflow_bound = 1 / 2 ^ 1075"

definition to_range :: "rat \<Rightarrow> jsnum" where
  "to_range q =
     (if overflow_bound \<le> \<bar>q\<bar> then (if 0 < q then PosInf else NegInf)
      else if \<bar>q\<bar> \<le> underflow_bound then Fin 0
      else Fin q)"

definition isFinite :: "jsnum \<Rightarrow> bool" where
  "isFinite x = (case x of Fin _ \<Rightarrow> True | _ \<Rightarrow> False)"

definition num_add :: "jsnum \<Rightarrow> jsnum \<Rightarrow> jsnum" where
  "num_add x y =
     (case (x, y) of
        (Fin a, Fin b) \<Rightarrow> to_range (a + b)
      | (NaN, _) \<Rightarrow> NaN
      | (_, NaN) \<Rightarrow> NaN
      | (PosInf, NegInf) \<Rightarrow> NaN
      | (NegInf, PosInf) \<Rightarrow> NaN
      | (PosInf, _) \<Rightarrow> PosInf
      | (NegInf, _) \<Rightarrow> NegInf
      | (_, PosInf) \<Rightarrow> PosInf
      | (_, NegInf) \<Rightarrow> NegInf)"

definition num_neg :: "jsnum \<Rightarrow> jsnum" where
  "num_neg x = (case x of Fin a \<Rightarrow> Fin (- a) | NaN \<Rightarrow> NaN | PosInf \<Rightarrow> NegInf | NegInf \<Rightarrow> PosInf)"

definition num_sign :: "jsnum \<Rightarrow> int" where
  "num_sign x = (case x of Fin a \<Rightarrow> (if a < 0 then -1 else if a = 0 then 0 else 1)
                 | NaN \<Rightarrow> 0 | PosInf \<Rightarrow> 1 | NegInf \<Rightarrow> -1)"

definition num_mul :: "jsnum \<Rightarrow> jsnum \<Rightarrow> jsnum" where
  "num_mul x y =
     (case (x, y) of
        (Fin a, Fin b) \<Rightarrow> to_range (a * b)
      | (NaN, _) \<Rightarrow> NaN
      | (_, NaN) \<Rightarrow> NaN
      | _ \<Rightarrow> (let s = num_sign x * num_sign y
              in if s = 0 then NaN else if 0 < s then PosInf else NegInf))"

text \<open>\<open>x > y\<close> and \<open>x <= y\<close> on numbers: false as soon as one side is \<open>NaN\<close>.\<close>

definition num_less :: "jsnum \<Rightarrow> jsnum \<Rightarrow> bool" where
  "num_less x y =
     (case (x, y) of
        (NaN, _) \<Rightarrow> False
      | (_, NaN) \<Rightarrow> False
      | (Fin a, Fin b) \<Rightarrow> a < b
      | (NegInf, NegInf) \<Rightarrow> False
      | (NegInf, _) \<Rightarrow> True
      | (_, PosInf) \<Rightarrow> (x \<noteq> PosInf)
      | _ \<Rightarrow> False)"

definition num_gt :: "jsnum \<Rightarrow> jsnum \<Rightarrow> bool" where
  "num_gt x y = num_less y x"

definition num_le :: "jsnum \<Rightarrow> jsnum \<Rightarrow> bool" where
  "num_le x y = (x \<noteq> NaN \<and> y \<noteq> NaN \<and> \<not> num_less y x)"

subsubsection \<open>Printing a number\<close>

definition digit_char :: "nat \<Rightarrow> char" where
  "digit_char d = char_of (48 + d)"

fun digits_of_nat :: "nat \<Rightarrow> string" where
  "digits_of_nat n =
     (if n < 10 then [digit_char n] else digits_of_nat (n div 10) @ [digit_char (n mod 10)])"

declare digits_of_nat.simps [simp del]

definition int_to_string :: "int \<Rightarrow> string" where
  "int_to_string i = (if i < 0 then ''-'' @ digits_of_nat (nat (- i)) else digits_of_nat (nat i))"

text \<open>For \<open>q > 0\<close>, \<open>magnitude q\<close> is the \<open>n\<close> with \<open>10^(n-1) \<le> q < 10^n\<close>.\<close>

definition magnitude :: "rat \<Rightarrow> int" where
  "magnitude q =
     (let (a, b) = quotient_of q;
          d = int (length (digits_of_nat (nat a))) - int (length (digits_of_nat (nat b)))
      in if q < pow10 d then d else d + 1)"

definition is_integer :: "rat \<Rightarrow> bool" where
  "is_integer q = (q = of_int \<lfloor>q\<rfloor>)"

text \<open>A binary64 prints with at most 17 significant digits; a rational with a longer
  expansion is printed rounded to 17.\<close>

definition round17 :: "rat \<Rightarrow> rat" where
  "round17 q = (let n = magnitude q in of_int \<lfloor>q * pow10 (17 - n) + 1 / 2\<rfloor> * pow10 (n - 17))"

text \<open>\<open>Number::toString\<close> of a positive number: with \<open>k\<close> significant digits \<open>s\<close> and
  \<open>q = s * 10^(n-k)\<close>, plain notation for \<open>-6 < n \<le> 21\<close> and exponent notation
  otherwise.\<close>

definition positive_to_string :: "rat \<Rightarrow> string" where
  "positive_to_string q0 =
     (let q = round17 q0;
          n = magnitude q;
          k = (case List.find (\<lambda>k. is_integer (q * pow10 (int k - n))) [1..<18] of
                 Some k \<Rightarrow> k | None \<Rightarrow> 17);
          s = digits_of_nat (nat \<lfloor>q * pow10 (int k - n)\<rfloor>)
      in if int k \<le> n \<and> n \<le> 21 then s @ replicate (nat (n - int k)) CHR ''0''
         else if 0 < n \<and> n \<le> 21 then take (nat n) s @ ''.'' @ drop (nat n) s
         else if -6 < n \<and> n \<le> 0 then ''0.'' @ replicate (nat (- n)) CHR ''0'' @ s
         else (let e = (if 0 \<le> n - 1 then ''+'' else ''-'') @ digits_of_nat (nat \<bar>n - 1\<bar>)
               in if k = 1 then s @ ''e'' @ e
                  else take 1 s @ ''.'' @ drop 1 s @ ''e'' @ e))"

definition Number_toString :: "jsnum \<Rightarrow> string" where
  "Number_toString x =
     (case x of
        NaN \<Rightarrow> ''NaN''
      | PosInf \<Rightarrow> ''Infinity''
      | NegInf \<Rightarrow> ''-Infinity''
      | Fin q \<Rightarrow> (if q = 0 then ''0''
                  else if q < 0 then ''-'' @ positive_to_string (- q)
                  else positive_to_string q))"

subsection \<open>Conversions\<close>

text \<open>\<open>String(v)\<close>: an array joins the strings of its elements with commas, \<open>null\<close> and
  \<open>undefined\<close> elements giving the empty string; a plain object is
  \<open>[object Object]\<close>.\<close>

fun ToString :: "jsval \<Rightarrow> string" where
  "ToString JUndefined = ''undefined''"
| "ToString JNull = ''null''"
| "ToString (JBool b) = (if b then ''true'' else ''false'')"
| "ToString (JNum x) = Number_toString x"
| "ToString (JStr s) = s"
| "ToString (JArr xs) =
     join '','' (map (\<lambda>x. if x = JUndefined \<or> x = JNull then [] else ToString x) xs)"
| "ToString (JObj kvs) = ''[object Object]''"

subsubsection \<open>Reading a number\<close>

definition all_digits :: "string \<Rightarrow> bool" where
  "all_digits s = list_all is_digit s"

definition digits_val :: "string \<Rightarrow> nat" where
  "digits_val s = foldl (\<lambda>a c. 10 * a + ((of_char c :: nat) - 48)) 0 s"

text \<open>\<open>split_at P s\<close> cuts \<open>s\<close> at the first code unit satisfying \<open>P\<close>: the part
  before it, and the part after it when there is such a code unit.\<close>

definition split_at :: "(char \<Rightarrow> bool) \<Rightarrow> string \<Rightarrow> string \<times> string option" where
  "split_at P s =
     (let a = takeWhile (\<lambda>c. \<not> P c) s; b = dropWhile (\<lambda>c. \<not> P c) s
      in (a, if b = [] then None else Some (tl b)))"

definition parse_exponent :: "string \<Rightarrow> int option" where
  "parse_exponent s =
     (let (sg, ds) = (case s of
                        [] \<Rightarrow> (1, [])
                      | c # r \<Rightarrow> if c = CHR ''+'' then (1, r)
                                 else if c = CHR ''-'' then (-1, r) else (1, s))
      in if ds \<noteq> [] \<and> all_digits ds then Some (sg * int (digits_val ds)) else None)"

text \<open>An unsigned decimal literal of the numeric string grammar: \<open>Infinity\<close>, or digits
  with an optional fraction and an optional exponent, with a digit before or after the
  point. \<open>None\<close> when the string is no such literal.\<close>

definition parse_unsigned_decimal :: "string \<Rightarrow> jsnum option" where
  "parse_unsigned_decimal s =
     (if s = ''Infinity'' then Some PosInf
      else let (mant, ex) = split_at (\<lambda>c. c = CHR ''e'' \<or> c = CHR ''E'') s;
               (ip, fp) = split_at (\<lambda>c. c = CHR ''.'') mant;
               fd = (case fp of None \<Rightarrow> [] | Some f \<Rightarrow> f);
               m = of_nat (digits_val ip) + of_nat (digits_val fd) / 10 ^ length fd
           in if all_digits ip \<and> all_digits fd \<and> (ip \<noteq> [] \<or> fd \<noteq> [])
              then (case ex of
                      None \<Rightarrow> Some (to_range m)
                    | Some e \<Rightarrow> (case parse_exponent e of
                                   None \<Rightarrow> None
                                 | Some n \<Rightarrow> Some (to_range (m * pow10 n))))
              else None)"

definition radix_digit :: "char \<Rightarrow> nat option" where
  "radix_digit c =
     (let n = (of_char c :: nat)
      in if 48 \<le> n \<and> n \<le> 57 then Some (n - 48)
         else if 97 \<le> n \<and> n \<le> 102 then Some (n - 87)
         else if 65 \<le> n \<and> n \<le> 70 then Some (n - 55)
         else None)"

definition parse_radix :: "nat \<Rightarrow> string \<Rightarrow> jsnum option" where
  "parse_radix b ds =
     (if ds \<noteq> [] \<and> list_all (\<lambda>c. case radix_digit c of None \<Rightarrow> False | Some d \<Rightarrow> d < b) ds
      then Some (to_range (of_nat (foldl (\<lambda>a c. b * a + the (radix_digit c)) 0 ds)))
      else None)"

text \<open>\<open>Number(s)\<close> of a string: white space around the literal is dropped, the empty
  string is zero, a sign is allowed before a decimal literal only, and anything outside
  the grammar is \<open>NaN\<close>.\<close>

definition StringToNumber :: "string \<Rightarrow> jsnum" where
  "StringToNumber s =
     (let t = trim s;
          r = (if t = [] then Some (Fin 0)
               else if startsWith t ''0x'' \<or> startsWith t ''0X'' then parse_radix 16 (drop 2 t)
               else if startsWith t ''0o'' \<or> startsWith t ''0O'' then parse_radix 8 (drop 2 t)
               else if startsWith t ''0b'' \<or> startsWith t ''0B'' then parse_radix 2 (drop 2 t)
               else if startsWith t ''+'' then parse_unsigned_decimal (drop 1 t)
               else if startsWith t ''-'' then map_option num_neg (parse_unsigned_decimal (drop 1 t))
               else parse_unsigned_decimal t)
      in case r of None \<Rightarrow> NaN | Some x \<Rightarrow> x)"

text \<open>\<open>Number(v)\<close>: an array or object is first turned into its string.\<close>

definition ToNumber :: "jsval \<Rightarrow> jsnum" where
  "ToNumber v =
     (case v of
        JUndefined \<Rightarrow> NaN
      | JNull \<Rightarrow> Fin 0
      | JBool b \<Rightarrow> Fin (if b then 1 else 0)
      | JNum x \<Rightarrow> x
      | JStr s \<Rightarrow> StringToNumber s
      | _ \<Rightarrow> StringToNumber (ToString v))"

definition ToBoolean :: "jsval \<Rightarrow> bool" where
  "ToBoolean v =
     (case v of
        JUndefined \<Rightarrow> False
      | JNull \<Rightarrow> False
      | JBool b \<Rightarrow> b
      | JNum x \<Rightarrow> x \<noteq> NaN \<and> x \<noteq> Fin 0
      | JStr s \<Rightarrow> s \<noteq> []
      | _ \<Rightarrow> True)"

text \<open>\<open>x.toFixed(f)\<close>: below \<open>10^21\<close> the magnitude is rounded to \<open>f\<close> decimals, a
  tie going up, and printed with exactly \<open>f\<close> digits after the point; from \<open>10^21\<close> on,
  and for \<open>NaN\<close> and the infinities, the number prints as \<open>String\<close> prints it.\<close>

definition toFixed :: "nat \<Rightarrow> jsnum \<Rightarrow> string" where
  "toFixed f x =
     (case x of
        Fin q \<Rightarrow>
          if 10 ^ 21 \<le> \<bar>q\<bar> then Number_toString x
          else let n = nat \<lfloor>\<bar>q\<bar> * 10 ^ f + 1 / 2\<rfloor>;
                   m = digits_of_nat n;
                   z = replicate (f + 1 - length m) CHR ''0'' @ m;
                   m' = (if f = 0 then m
                         else take (length z - f) z @ ''.'' @ drop (length z - f) z)
               in (if q < 0 then ''-'' else []) @ m'
      | _ \<Rightarrow> Number_toString x)"

section \<open>Best-of labels (utils/formatBo)\<close>

definition formatBoType :: "jsval \<Rightarrow> string" where
  "formatBoType boType =
     (if boType = JNull \<or> boType = JUndefined \<or> boType = JStr [] then ''Bo?''
      else let s = toLowerCase (ToString boType)
           in if str_includes s ''5'' then ''Bo5''
              else if str_includes s ''3'' then ''Bo3''
              else ''Bo?'')"

definition resolveBoType :: "jsval \<Rightarrow> jsval \<Rightarrow> jsval \<Rightarrow> string" where
  "resolveBoType boType score1 score2 =
     (let fromApi = formatBoType boType
      in if fromApi \<noteq> ''Bo?'' then fromApi
         else let s1 = ToNumber score1; s2 = ToNumber score2
              in if isFinite s1 \<and> isFinite s2 \<and> num_gt (num_add s1 s2) (Fin 3) then ''Bo5''
                 else if isFinite s1 \<and> isFinite s2 then ''Bo3''
                 else ''Bo?'')"

section \<open>Markdown lines of a stats result (components/StatsResult)\<close>

text \<open>\<open>s.split(c)\<close> for a one-character separator: the pieces between the occurrences
  of \<open>c\<close>, one more than there are occurrences.\<close>

fun split_char :: "char \<Rightarrow> string \<Rightarrow> string list" where
  "split_char c [] = [[]]"
| "split_char c (x # xs) =
     (let r = split_char c xs in if x = c then [] # r else (x # hd r) # tl r)"

definition newline :: char where
  "newline = CHR 0x0A"

text \<open>What \<open>renderMarkdownLines\<close> returns: one React element per line, each with its
  key. The children of a list paragraph are plain strings and \<open><strong>\<close> elements.\<close>

datatype part = Text string | Strong nat string

datatype element =
    H3 nat string
  | H2 nat string
  | ListP nat "part list"
  | Br nat
  | P nat string

text \<open>One turn of the \<open>while\<close> loop, entered with \<open>remaining.includes('**')\<close>: \<open>None\<close> is
  the \<open>break\<close>, otherwise the new \<open>parts\<close> and the new \<open>remaining\<close>.\<close>

definition bold_step :: "part list \<Rightarrow> string \<Rightarrow> (part list \<times> string) option" where
  "bold_step parts remaining =
     (let i1 = indexOf remaining ''**'' 0;
          i2 = indexOf remaining ''**'' (nat (i1 + 2))
      in if i2 = -1 then None
         else Some (parts @ [Text (slice remaining 0 i1),
                             Strong (length parts + 1) (slice remaining (i1 + 2) i2)],
                    slice_from remaining (i2 + 2)))"

function bold_loop :: "part list \<Rightarrow> string \<Rightarrow> part list \<times> string" where
  "bold_loop parts remaining =
     (if str_includes remaining ''**''
      then (case bold_step parts remaining of
              None \<Rightarrow> (parts, remaining)
            | Some (parts', remaining') \<Rightarrow> bold_loop parts' remaining')
      else (parts, remaining))"
  by pat_completeness auto

termination
proof (relation "measure (\<lambda>(parts, remaining). length remaining)")
  show "wf (measure (\<lambda>(parts, remaining). length remaining))"
    by simp
next
  fix parts x1 :: "part list" and remaining remaining' :: string and x2
  assume inc: "str_includes remaining ''**''"
    and step: "bold_step parts remaining = Some x2" and x2: "(x1, remaining') = x2"
  let ?i2 = "indexOf remaining ''**'' (nat (indexOf remaining ''**'' 0 + 2))"
  have range: "find_at sub s k = -1 \<or> int k \<le> find_at sub s k" for sub s k
    by (induction s arbitrary: k) (auto, force)
  from step x2 have ne: "?i2 \<noteq> -1" and r: "remaining' = slice_from remaining (?i2 + 2)"
    by (auto simp: bold_step_def Let_def split: if_splits)
  have "indexOf s sub pos = -1 \<or> 0 \<le> indexOf s sub pos" for s sub pos
    using range [of sub "drop (min pos (length s)) s" "min pos (length s)"]
    by (auto simp: indexOf_def Let_def)
  with ne have "0 \<le> ?i2"
    by blast
  moreover from inc have "remaining \<noteq> []"
    by (auto simp: str_includes_def indexOf_def)
  ultimately have "length remaining' < length remaining"
    unfolding r by (cases remaining) (auto simp: slice_from_def clamp_index_def)
  then show "((x1, remaining'), (parts, remaining)) \<in> measure (\<lambda>(parts, remaining). length remaining)"
    by simp
qed

declare bold_loop.simps [simp del]

text \<open>The callback of \<open>lines.map\<close>: the element for line \<open>i\<close>.\<close>

definition render_line :: "nat \<Rightarrow> string \<Rightarrow> element" where
  "render_line i line =
     (if startsWith line ''### '' then H3 i (slice_from line 4)
      else if startsWith line ''## '' then H2 i (slice_from line 3)
      else if startsWith line ''- ''
      then (let rest = slice_from line 2;
                (parts, remaining) = bold_loop [] rest
            in ListP i (parts @ [Text remaining]))
      else if trim line = [] then Br i
      else P i line)"

definition renderMarkdownLines :: "string \<Rightarrow> element list" where
  "renderMarkdownLines md =
     (let lines = split_char newline md
      in map (\<lambda>(i, line). render_line i line) (enumerate 0 lines))"

section \<open>Objects\<close>

definition typeof :: "jsval \<Rightarrow> string" where
  "typeof v =
     (case v of
        JUndefined \<Rightarrow> ''undefined''
      | JNull \<Rightarrow> ''object''
      | JBool _ \<Rightarrow> ''boolean''
      | JNum _ \<Rightarrow> ''number''
      | JStr _ \<Rightarrow> ''string''
      | JArr _ \<Rightarrow> ''object''
      | JObj _ \<Rightarrow> ''object'')"

text \<open>\<open>v == null\<close>, the test behind \<open>!= null\<close>, \<open>??\<close> and \<open>?.\<close>.\<close>

definition is_nullish :: "jsval \<Rightarrow> bool" where
  "is_nullish v = (v = JNull \<or> v = JUndefined)"

definition nullish_or :: "jsval \<Rightarrow> jsval \<Rightarrow> jsval" where
  "nullish_or v d = (if is_nullish v then d else v)"

text \<open>An array index as a property name: the canonical decimal string of a number.\<close>

definition array_index :: "string \<Rightarrow> nat option" where
  "array_index k =
     (if k \<noteq> [] \<and> all_digits k \<and> (k = ''0'' \<or> hd k \<noteq> CHR ''0'') then Some (digits_val k)
      else None)"

text \<open>\<open>v[k]\<close> and \<open>v?.k\<close> for the own properties of a JSON value: a missing property, and
  any property of a primitive other than a string's or an array's \<open>length\<close>, reads as
  \<open>undefined\<close>.\<close>

definition get_prop :: "jsval \<Rightarrow> string \<Rightarrow> jsval" where
  "get_prop v k =
     (case v of
        JObj kvs \<Rightarrow> (case map_of kvs k of None \<Rightarrow> JUndefined | Some x \<Rightarrow> x)
      | JArr xs \<Rightarrow>
          (if k = ''length'' then JNum (Fin (of_nat (length xs)))
           else case array_index k of
                  None \<Rightarrow> JUndefined
                | Some i \<Rightarrow> if i < length xs then xs ! i else JUndefined)
      | JStr s \<Rightarrow>
          (if k = ''length'' then JNum (Fin (of_nat (length s)))
           else case array_index k of
                  None \<Rightarrow> JUndefined
                | Some i \<Rightarrow> if i < length s then JStr [s ! i] else JUndefined)
      | _ \<Rightarrow> JUndefined)"

definition Object_keys :: "jsval \<Rightarrow> string list" where
  "Object_keys v =
     (case v of
        JObj kvs \<Rightarrow> map fst kvs
      | JArr xs \<Rightarrow> map digits_of_nat [0..<length xs]
      | JStr s \<Rightarrow> map digits_of_nat [0..<length s]
      | _ \<Rightarrow> [])"


section \<open>Chart data of the series probabilities (utils/formatBo)\<close>

definition BO3_ORDER :: "string list" where
  "BO3_ORDER = [''2-0'', ''2-1'', ''1-2'', ''0-2'']"

definition BO5_ORDER :: "string list" where
  "BO5_ORDER = [''3-0'', ''3-1'', ''3-2'', ''2-3'', ''1-3'', ''0-3'']"

definition inferSeriesFormatFromScoreProbs :: "jsval \<Rightarrow> string" where
  "inferSeriesFormatFromScoreProbs scoreProbs =
     (if \<not> ToBoolean scoreProbs \<or> typeof scoreProbs \<noteq> ''object'' then ''Bo3''
      else let keys = Object_keys scoreProbs;
               hasThree = list_ex (\<lambda>k. startsWith k ''3-'' \<or> endsWith k ''-3'') keys
           in if hasThree then ''Bo5'' else ''Bo3'')"

record chart_entry =
  score :: string
  probability :: jsnum

text \<open>\<open>rest.sort()\<close> orders strings by their code units, a proper prefix first: the
  lexicographic order of \<open>string\<close>.\<close>

definition seriesChartData :: "jsval \<Rightarrow> jsval \<Rightarrow> chart_entry list" where
  "seriesChartData scoreProbs format =
     (if \<not> ToBoolean scoreProbs \<or> typeof scoreProbs \<noteq> ''object'' then []
      else let order = (if format = JStr ''Bo5'' then BO5_ORDER else BO3_ORDER);
               ordered = filter (\<lambda>s. \<not> is_nullish (get_prop scoreProbs s)) order;
               rest = sort (filter (\<lambda>s. s \<notin> set order) (Object_keys scoreProbs));
               allKeys = ordered @ rest
           in map (\<lambda>score.
                    \<lparr>score = score,
                     probability =
                       StringToNumber
                         (toFixed 2
                            (num_mul (ToNumber (nullish_or (get_prop scoreProbs score) (JNum (Fin 0))))
                               (Fin 100)))\<rparr>)
                allKeys)"


section \<open>The edges table (components/AnalysisPanel)\<close>

text \<open>\<open>a || b\<close>.\<close>

definition js_or :: "jsval \<Rightarrow> jsval \<Rightarrow> jsval" where
  "js_or a b = (if ToBoolean a then a else b)"





section \<open>Errors\<close>

text \<open>A thrown \<open>Error\<close> object: its name and message, and the two properties \<open>request\<close>
  adds to the errors it builds (absent on every other error).\<close>

record js_error =
  err_name :: string
  err_message :: string
  err_status :: "nat option"
  err_payload :: "jsval option"

definition new_Error :: "string \<Rightarrow> js_error" where
  "new_Error msg = \<lparr>err_name = ''Error'', err_message = msg, err_status = None, err_payload = None\<rparr>"

text \<open>The \<open>TypeError\<close> of the engine for reading a property of \<open>null\<close> or \<open>undefined\<close>
  and for calling something that is not a function; its message text is the engine's.\<close>

definition engine_TypeError :: js_error where
  "engine_TypeError =
     \<lparr>err_name = ''TypeError'', err_message = ''TypeError'', err_status = None, err_payload = None\<rparr>"

section \<open>The odds form (components/OddsForm)\<close>

text \<open>\<open>s.split(/\s+/)\<close>: the pieces between the maximal runs of white space.\<close>

function split_ws :: "string \<Rightarrow> string list" where
  "split_ws s =
     (let tok = takeWhile (\<lambda>c. \<not> is_space c) s;
          rest = dropWhile (\<lambda>c. \<not> is_space c) s
      in if rest = [] then [tok] else tok # split_ws (dropWhile is_space rest))"
  by pat_completeness auto

termination
proof (relation "measure length")
  show "wf (measure length)" by simp
next
  fix s tok rest :: string
  assume rest: "rest = dropWhile (\<lambda>c. \<not> is_space c) s" and ne: "rest \<noteq> []"
  from ne obtain c cs where c: "rest = c # cs" by (cases rest) auto
  from ne rest have "is_space (hd rest)"
    using hd_dropWhile [of "\<lambda>c. \<not> is_space c" s] by simp
  with c have "is_space c" by simp
  with c have "length (dropWhile is_space rest) \<le> length cs"
    by (simp add: length_dropWhile_le)
  also have "\<dots> < length rest" using c by simp
  also have "\<dots> \<le> length s" using rest by (simp add: length_dropWhile_le)
  finally show "(dropWhile is_space rest, s) \<in> measure length" by simp
qed

declare split_ws.simps [simp del]

record odds_entry =
  bookmaker :: string
  market_type :: string
  selection :: jsval
  odds_value :: jsnum
  map_number :: jsval

definition BOOKMAKERS :: "string list" where
  "BOOKMAKERS = [''betano'', ''bet365'']"

text \<open>The body of the loop of \<open>parseBatch\<close> for one line: \<open>None\<close> is \<open>continue\<close>.\<close>

definition parse_line :: "string \<Rightarrow> odds_entry option" where
  "parse_line line =
     (let tokens = split_ws line
      in if length tokens < 4 then None
         else let bookmaker = toLowerCase (tokens ! 0);
                  market_type = toLowerCase (tokens ! 1);
                  selection = join '' '' (slice tokens 2 (-1));
                  odds_value = StringToNumber (tokens ! (length tokens - 1))
              in if \<not> isFinite odds_value \<or> num_le odds_value (Fin 1) then None
                 else let mapDigits = filter is_digit market_type
                      in Some \<lparr>bookmaker = bookmaker, market_type = market_type,
                               selection = JStr selection, odds_value = odds_value,
                               map_number = (if mapDigits \<noteq> [] then JNum (StringToNumber mapDigits)
                                             else JNull)\<rparr>)"

definition batch_lines :: "string \<Rightarrow> string list" where
  "batch_lines batchText =
     filter (\<lambda>part. part \<noteq> [])
       (map trim (split_char CHR '';'' (map (\<lambda>c. if c = newline then CHR '';'' else c) batchText)))"

definition parseBatch :: "string \<Rightarrow> odds_entry list" where
  "parseBatch batchText = List.map_filter parse_line (batch_lines batchText)"

text \<open>\<open>v?.k\<close>.\<close>

definition opt_prop :: "jsval \<Rightarrow> string \<Rightarrow> jsval" where
  "opt_prop v k = (if is_nullish v then JUndefined else get_prop v k)"

definition team_label :: "jsval \<Rightarrow> string \<Rightarrow> string \<Rightarrow> jsval" where
  "team_label teams side dflt =
     js_or (js_or (opt_prop (opt_prop teams side) ''tag'') (opt_prop (opt_prop teams side) ''name''))
       (JStr dflt)"

definition mapList :: "jsval \<Rightarrow> jsval" where
  "mapList maps =
     (if \<not> ToBoolean (opt_prop maps ''length'')
      then JArr [JObj [(''map_order'', JNum (Fin 1)), (''map_name'', JStr ''Map 1'')],
                 JObj [(''map_order'', JNum (Fin 2)), (''map_name'', JStr ''Map 2'')],
                 JObj [(''map_order'', JNum (Fin 3)), (''map_name'', JStr ''Map 3'')]]
      else maps)"

text \<open>\<open>if (x > 1) entries.push(...)\<close> for one field of the form.\<close>

definition push_if :: "jsval \<Rightarrow> string \<Rightarrow> string \<Rightarrow> string \<Rightarrow> jsval \<Rightarrow> jsval \<Rightarrow> odds_entry list" where
  "push_if values key book market sel n =
     (let x = ToNumber (get_prop values key)
      in if num_gt x (Fin 1)
         then [\<lparr>bookmaker = book, market_type = market, selection = sel, odds_value = x,
                map_number = n\<rparr>]
         else [])"

definition match_winner_entries :: "jsval \<Rightarrow> jsval \<Rightarrow> jsval \<Rightarrow> string \<Rightarrow> odds_entry list" where
  "match_winner_entries values teamA teamB book =
     push_if values (''match_winner_'' @ book @ ''_a'') book ''match_winner'' teamA JNull @
     push_if values (''match_winner_'' @ book @ ''_b'') book ''match_winner'' teamB JNull"

definition map_entries :: "jsval \<Rightarrow> jsval \<Rightarrow> jsval \<Rightarrow> jsval \<Rightarrow> string \<Rightarrow> odds_entry list" where
  "map_entries values teamA teamB n book =
     (let m = ''map'' @ ToString n
      in push_if values (m @ ''_winner_'' @ book @ ''_a'') book (m @ ''_winner'') teamA n @
         push_if values (m @ ''_winner_'' @ book @ ''_b'') book (m @ ''_winner'') teamB n @
         push_if values (m @ ''_ot_'' @ book) book (m @ ''_ot'') (JStr ''Yes'') n @
         push_if values (m @ ''_handicap_'' @ book) book (m @ ''_handicap'')
           (JStr (ToString teamA @ '' -2.5'')) n @
         push_if values (m @ ''_total_rounds_'' @ book) book (m @ ''_total_rounds'')
           (JStr ''Over 24.5'') n @
         push_if values (m @ ''_pistol_'' @ book) book (m @ ''_pistol_1h'') teamA n)"

text \<open>\<open>collectStructuredEntries\<close>, from the form's \<open>values\<close> and the props. \<open>forEach\<close> on a
  map list that is not an array, and \<open>map.map_order\<close> on a \<open>null\<close> map, throw.\<close>

definition collectStructuredEntries :: "jsval \<Rightarrow> jsval \<Rightarrow> jsval \<Rightarrow> js_error + odds_entry list" where
  "collectStructuredEntries values teams maps =
     (let teamA = team_label teams ''team_a'' ''Team A'';
          teamB = team_label teams ''team_b'' ''Team B'';
          first = concat (map (match_winner_entries values teamA teamB) BOOKMAKERS)
      in case mapList maps of
           JArr ms \<Rightarrow>
             if list_ex is_nullish ms then Inl engine_TypeError
             else Inr (first @
                       concat (map (\<lambda>m. concat (map (map_entries values teamA teamB
                                                       (get_prop m ''map_order'')) BOOKMAKERS)) ms))
         | _ \<Rightarrow> Inl engine_TypeError)"

section \<open>The API client (api/client)\<close>

subsection \<open>JSON.stringify and URL encoding\<close>

definition hex_digit :: "nat \<Rightarrow> char" where
  "hex_digit d = (if d < 10 then char_of (48 + d) else char_of (87 + d))"

definition json_escape :: "char \<Rightarrow> string" where
  "json_escape c =
     (let n = (of_char c :: nat)
      in if c = CHR 0x22 then [CHR 0x5C, CHR 0x22]
         else if c = CHR 0x5C then [CHR 0x5C, CHR 0x5C]
         else if n = 8 then [CHR 0x5C, CHR ''b'']
         else if n = 12 then [CHR 0x5C, CHR ''f'']
         else if n = 10 then [CHR 0x5C, CHR ''n'']
         else if n = 13 then [CHR 0x5C, CHR ''r'']
         else if n = 9 then [CHR 0x5C, CHR ''t'']
         else if n < 32 then [CHR 0x5C, CHR ''u'', CHR ''0'', CHR ''0'', hex_digit (n div 16),
                              hex_digit (n mod 16)]
         else [c])"

definition json_quote :: "string \<Rightarrow> string" where
  "json_quote s = [CHR 0x22] @ concat (map json_escape s) @ [CHR 0x22]"

text \<open>\<open>JSON.stringify(v)\<close>: \<open>None\<close> is the result \<open>undefined\<close>. A number that is not
  finite becomes \<open>null\<close>, as does an \<open>undefined\<close> array element; a property whose value
  is \<open>undefined\<close> is left out.\<close>

fun JSON_stringify :: "jsval \<Rightarrow> string option" where
  "JSON_stringify JUndefined = None"
| "JSON_stringify JNull = Some ''null''"
| "JSON_stringify (JBool b) = Some (if b then ''true'' else ''false'')"
| "JSON_stringify (JNum x) = Some (if isFinite x then Number_toString x else ''null'')"
| "JSON_stringify (JStr s) = Some (json_quote s)"
| "JSON_stringify (JArr xs) =
     Some (''['' @ join '',''
             (map (\<lambda>x. case JSON_stringify x of None \<Rightarrow> ''null'' | Some s \<Rightarrow> s) xs) @ '']'')"
| "JSON_stringify (JObj kvs) =
     Some (''{'' @ join '',''
             (concat (map (\<lambda>(k, v). case JSON_stringify v of
                                        None \<Rightarrow> []
                                      | Some s \<Rightarrow> [json_quote k @ '':'' @ s]) kvs)) @ ''}'')"

text \<open>The UTF-8 bytes of a code unit below 256.\<close>

definition utf8 :: "char \<Rightarrow> nat list" where
  "utf8 c = (let n = (of_char c :: nat) in if n < 128 then [n] else [192 + n div 64, 128 + n mod 64])"

definition upper_hex :: "nat \<Rightarrow> char" where
  "upper_hex d = (if d < 10 then char_of (48 + d) else char_of (55 + d))"

definition percent :: "nat \<Rightarrow> string" where
  "percent b = [CHR ''%'', upper_hex (b div 16), upper_hex (b mod 16)]"

definition is_alnum :: "char \<Rightarrow> bool" where
  "is_alnum c =
     (let n = (of_char c :: nat)
      in (48 \<le> n \<and> n \<le> 57) \<or> (65 \<le> n \<and> n \<le> 90) \<or> (97 \<le> n \<and> n \<le> 122))"

definition encodeURIComponent :: "string \<Rightarrow> string" where
  "encodeURIComponent s =
     concat (map (\<lambda>c. if is_alnum c \<or> c \<in> set ''-_.!~*'' \<or> c = CHR 0x27 \<or> c \<in> set ''()''
                        then [c] else concat (map percent (utf8 c))) s)"

text \<open>\<open>URLSearchParams\<close>: the list of pairs, \<open>set\<close>, \<open>append\<close> and \<open>toString\<close>.\<close>

definition form_encode :: "string \<Rightarrow> string" where
  "form_encode s =
     concat (map (\<lambda>c. if c = CHR '' '' then ''+''
                        else if is_alnum c \<or> c \<in> set ''*-._'' then [c]
                        else concat (map percent (utf8 c))) s)"

definition search_append :: "(string \<times> string) list \<Rightarrow> string \<Rightarrow> string \<Rightarrow> (string \<times> string) list" where
  "search_append ps k v = ps @ [(k, v)]"

definition search_set :: "(string \<times> string) list \<Rightarrow> string \<Rightarrow> string \<Rightarrow> (string \<times> string) list" where
  "search_set ps k v =
     (let a = takeWhile (\<lambda>p. fst p \<noteq> k) ps; b = dropWhile (\<lambda>p. fst p \<noteq> k) ps
      in if b = [] then ps @ [(k, v)] else a @ [(k, v)] @ filter (\<lambda>p. fst p \<noteq> k) (tl b))"

definition search_toString :: "(string \<times> string) list \<Rightarrow> string" where
  "search_toString ps = join ''&'' (map (\<lambda>(k, v). form_encode k @ ''='' @ form_encode v) ps)"

definition with_query :: "string \<Rightarrow> (string \<times> string) list \<Rightarrow> string" where
  "with_query path ps = (let query = search_toString ps in path @ (if query \<noteq> [] then ''?'' @ query else []))"

subsection \<open>fetch\<close>

text \<open>What \<open>response.json()\<close> settles with, if it settles.\<close>

datatype body_result = BodyPending | BodyFails js_error | BodyJson jsval

record response =
  resp_ok :: bool
  resp_status :: nat
  resp_content_type :: "string option"
  resp_json :: body_result

datatype fetch_settlement = Rejects js_error | Resolves response

text \<open>What one call of \<open>fetch\<close> would do if nobody aborted it: the time in milliseconds
  after which its promise settles (\<open>None\<close>: never) and what it settles with.\<close>

record fetch_behaviour =
  settle_time :: "nat option"
  settle_result :: fetch_settlement

record request_options =
  opt_method :: "string option"
  opt_body :: "string option"
  opt_headers :: "(string \<times> string) list"

text \<open>The \<open>init\<close> object \<open>request\<close> passes to \<open>fetch\<close>; its \<open>signal\<close> is the controller's,
  which aborts after \<open>init_abort_after\<close> milliseconds.\<close>

record fetch_init =
  init_method :: "string option"
  init_body :: "string option"
  init_headers :: "(string \<times> string) list"
  init_abort_after :: nat

definition DEFAULT_HEADERS :: "(string \<times> string) list" where
  "DEFAULT_HEADERS = [(''Content-Type'', ''application/json'')]"

definition REQUEST_TIMEOUT_MS :: nat where
  "REQUEST_TIMEOUT_MS = 30000"

text \<open>\<open>{...a, ...b}\<close> on string-valued objects: the keys of \<open>a\<close> in place, with the values
  \<open>b\<close> gives them, then the new keys of \<open>b\<close>.\<close>

definition spread :: "(string \<times> string) list \<Rightarrow> (string \<times> string) list \<Rightarrow> (string \<times> string) list" where
  "spread a b =
     map (\<lambda>(k, v). (k, case map_of b k of None \<Rightarrow> v | Some w \<Rightarrow> w)) a @
     filter (\<lambda>(k, v). k \<notin> fst ` set a) b"

text \<open>The \<open>AbortError\<close> with which \<open>fetch\<close> rejects once its signal is aborted; the
  message text is the engine's.\<close>

definition AbortError :: js_error where
  "AbortError =
     \<lparr>err_name = ''AbortError'', err_message = ''AbortError'', err_status = None, err_payload = None\<rparr>"

text \<open>\<open>await fetch(path, init)\<close>: the promise settles by itself when it does so within the
  time after which the signal aborts; otherwise the abort rejects it.\<close>

definition await_fetch :: "fetch_behaviour \<Rightarrow> fetch_init \<Rightarrow> js_error + response" where
  "await_fetch b init =
     (case settle_time b of
        None \<Rightarrow> Inl AbortError
      | Some t \<Rightarrow>
          if t \<le> init_abort_after init
          then (case settle_result b of Rejects err \<Rightarrow> Inl err | Resolves r \<Rightarrow> Inr r)
          else Inl AbortError)"

datatype 'a outcome = Pending | Throws js_error | Returns 'a

definition timeout_message :: string where
  "timeout_message =
     ''A requisi'' @ [CHR 0xE7, CHR 0xE3] @ ''o passou do tempo limite (30s). Verifique se a API est'' @
     [CHR 0xE1] @ '' rodando na porta 8000 e se o servidor n'' @ [CHR 0xE3] @ ''o travou.''"

text \<open>The \<open>catch\<close> block of \<open>request\<close>.\<close>

definition request_catch :: "js_error \<Rightarrow> jsval outcome" where
  "request_catch err =
     (if err_name err = ''AbortError'' then Throws (new_Error timeout_message) else Throws err)"

text \<open>The error \<open>request\<close> builds for a response that is not ok.\<close>

definition response_error :: "response \<Rightarrow> jsval \<Rightarrow> js_error" where
  "response_error r payload =
     (let message = js_or (js_or (opt_prop payload ''detail'') (opt_prop payload ''error''))
                      (JStr (''Request failed ('' @ digits_of_nat (resp_status r) @ '')''))
      in (new_Error (case message of
                       JStr s \<Rightarrow> s
                     | _ \<Rightarrow> (case JSON_stringify message of None \<Rightarrow> [] | Some s \<Rightarrow> s)))
           \<lparr>err_status := Some (resp_status r), err_payload := Some payload\<rparr>)"

text \<open>\<open>response.headers.get('content-type')?.includes('application/json')\<close>.\<close>

definition isJson :: "response \<Rightarrow> bool" where
  "isJson r =
     (case resp_content_type r of None \<Rightarrow> False | Some ct \<Rightarrow> str_includes ct ''application/json'')"

text \<open>\<open>request(path, options)\<close>, given what its call of \<open>fetch\<close> does. The second component
  is the list of the calls of \<open>fetch\<close> made so far.\<close>

definition request ::
  "fetch_behaviour \<Rightarrow> string \<Rightarrow> request_options \<Rightarrow> (string \<times> fetch_init) list \<Rightarrow>
   jsval outcome \<times> (string \<times> fetch_init) list" where
  "request net path options calls =
     (let init = \<lparr>init_method = opt_method options, init_body = opt_body options,
                  init_headers = spread DEFAULT_HEADERS (opt_headers options),
                  init_abort_after = REQUEST_TIMEOUT_MS\<rparr>;
          calls' = calls @ [(path, init)]
      in (case await_fetch net init of
            Inl err \<Rightarrow> request_catch err
          | Inr r \<Rightarrow>
              case (if isJson r then resp_json r else BodyJson JNull) of
                   BodyPending \<Rightarrow> Pending
                 | BodyFails err \<Rightarrow> request_catch err
                 | BodyJson payload \<Rightarrow>
                     if \<not> resp_ok r then request_catch (response_error r payload)
                     else Returns payload,
          calls'))"

subsection \<open>The functions of \<open>api\<close>\<close>

text \<open>A call of one of the functions of the exported \<open>api\<close> object, with its arguments;
  an argument left out is \<open>undefined\<close>.\<close>

datatype api_call =
    getEvents jsval
  | getTeams jsval
  | getMaps
  | getMarkets
  | getMatches jsval
  | getMatch jsval
  | getMatchAnalysis jsval
  | getCrossMatchParlays jsval
  | saveVeto jsval jsval
  | saveOdds jsval jsval
  | getOdds jsval jsval
  | autoOdds jsval jsval
  | getTeamStats jsval jsval
  | statsQuery jsval
  | statsH2h jsval jsval jsval
  | saveLiveMapResult jsval jsval
  | getLiveSeriesProb jsval
  | getConfig
  | updateConfig jsval
  | sync jsval
  | hedge jsval jsval jsval jsval

text \<open>A parameter with a default value.\<close>

definition default_param :: "jsval \<Rightarrow> jsval \<Rightarrow> jsval" where
  "default_param v d = (if v = JUndefined then d else v)"

definition GET :: "string \<Rightarrow> string \<times> request_options" where
  "GET path = (path, \<lparr>opt_method = None, opt_body = None, opt_headers = []\<rparr>)"

definition with_body :: "string \<Rightarrow> string \<Rightarrow> jsval \<Rightarrow> string \<times> request_options" where
  "with_body method path body =
     (path, \<lparr>opt_method = Some method, opt_body = JSON_stringify body, opt_headers = []\<rparr>)"

text \<open>\<open>if (params.k != null) search.set(name, String(params.k))\<close> and
  \<open>if (params.k) search.set(name, params.k)\<close>.\<close>

definition set_if_present :: "jsval \<Rightarrow> string \<Rightarrow> string \<Rightarrow> (string \<times> string) list \<Rightarrow> (string \<times> string) list" where
  "set_if_present params k name search =
     (if \<not> is_nullish (get_prop params k) then search_set search name (ToString (get_prop params k))
      else search)"

definition set_if_truthy :: "jsval \<Rightarrow> string \<Rightarrow> string \<Rightarrow> (string \<times> string) list \<Rightarrow> (string \<times> string) list" where
  "set_if_truthy params k name search =
     (if ToBoolean (get_prop params k) then search_set search name (ToString (get_prop params k))
      else search)"

text \<open>The path and the options with which each function calls \<open>request\<close>. Reading a
  property of a \<open>null\<close> \<open>params\<close> throws before \<open>request\<close> is called.\<close>

fun api_request :: "api_call \<Rightarrow> js_error + string \<times> request_options" where
  "api_request (getEvents params0) =
     (let params = default_param params0 (JObj [])
      in if is_nullish params then Inl engine_TypeError
         else Inr (GET (with_query ''/api/events'' (set_if_present params ''fromYear'' ''from_year'' []))))"
| "api_request (getTeams region) =
     Inr (GET (''/api/teams'' @
               (if ToBoolean region \<and> region \<noteq> JStr ''all''
                then ''?region='' @ encodeURIComponent (ToString region) else [])))"
| "api_request getMaps = Inr (GET ''/api/maps'')"
| "api_request getMarkets = Inr (GET ''/api/markets'')"
| "api_request (getMatches params0) =
     (let params = default_param params0 (JObj [])
      in if is_nullish params then Inl engine_TypeError
         else let s0 = (case get_prop params ''eventIds'' of
                          JArr ids \<Rightarrow> foldl (\<lambda>s ev. search_append s ''event_id'' (ToString ev)) [] ids
                        | _ \<Rightarrow> []);
                  s1 = set_if_truthy params ''status'' ''status'' s0;
                  s2 = set_if_truthy params ''dateFrom'' ''date_from'' s1;
                  s3 = set_if_truthy params ''dateTo'' ''date_to'' s2;
                  s4 = set_if_present params ''fromYear'' ''from_year'' s3;
                  s5 = set_if_truthy params ''limit'' ''limit'' s4
              in Inr (GET (with_query ''/api/matches'' s5)))"
| "api_request (getMatch matchId) = Inr (GET (''/api/matches/'' @ ToString matchId))"
| "api_request (getMatchAnalysis matchId) =
     Inr (GET (''/api/matches/'' @ ToString matchId @ ''/analysis''))"
| "api_request (getCrossMatchParlays params0) =
     (let params = default_param params0 (JObj [])
      in if is_nullish params then Inl engine_TypeError
         else let s1 = set_if_truthy params ''dateFrom'' ''date_from'' [];
                  s2 = set_if_truthy params ''dateTo'' ''date_to'' s1;
                  s3 = set_if_present params ''maxLegs'' ''max_legs'' s2
              in Inr (GET (with_query ''/api/analysis/cross-match-parlays'' s3)))"
| "api_request (saveVeto matchId body) =
     Inr (with_body ''POST'' (''/api/matches/'' @ ToString matchId @ ''/veto'') body)"
| "api_request (saveOdds matchId body) =
     Inr (with_body ''POST'' (''/api/matches/'' @ ToString matchId @ ''/odds'') body)"
| "api_request (getOdds matchId latestOnly) =
     Inr (GET (''/api/matches/'' @ ToString matchId @ ''/odds?latest_only='' @
               ToString (default_param latestOnly (JBool True))))"
| "api_request (autoOdds matchId force) =
     Inr (with_body ''POST'' (''/api/matches/'' @ ToString matchId @ ''/odds/auto'')
            (JObj [(''force'', default_param force (JBool False))]))"
| "api_request (getTeamStats teamId mapName) =
     Inr (GET (''/api/stats/team/'' @ ToString teamId @
               (if ToBoolean mapName then ''?map_name='' @ encodeURIComponent (ToString mapName)
                else [])))"
| "api_request (statsQuery q) =
     Inr (GET (''/api/stats/query?q='' @ encodeURIComponent (ToString q)))"
| "api_request (statsH2h a b mapName) =
     (let s0 = [(''a'', ToString a), (''b'', ToString b)];
          s1 = (if ToBoolean mapName then search_set s0 ''map_name'' (ToString mapName) else s0)
      in Inr (GET (''/api/stats/h2h?'' @ search_toString s1)))"
| "api_request (saveLiveMapResult matchId body) =
     Inr (with_body ''POST'' (''/api/matches/'' @ ToString matchId @ ''/live/map-result'') body)"
| "api_request (getLiveSeriesProb matchId) =
     Inr (GET (''/api/matches/'' @ ToString matchId @ ''/live/series-prob''))"
| "api_request getConfig = Inr (GET ''/api/config'')"
| "api_request (updateConfig body) = Inr (with_body ''PUT'' ''/api/config'' body)"
| "api_request (sync body) = Inr (with_body ''POST'' ''/api/sync'' (js_or body (JObj [])))"
| "api_request (hedge stake odds hedgeOdds lockProfit) =
     Inr (GET (''/api/hedge?stake='' @ ToString stake @ ''&odds='' @ ToString odds @
               ''&hedge_odds='' @ ToString hedgeOdds @ ''&lock_profit='' @
               ToString (default_param lockProfit (JBool True))))"

text \<open>Calling a function of \<open>api\<close>: every one of them ends in \<open>request\<close>.\<close>

definition api ::
  "fetch_behaviour \<Rightarrow> api_call \<Rightarrow> (string \<times> fetch_init) list \<Rightarrow>
   jsval outcome \<times> (string \<times> fetch_init) list" where
  "api net c calls =
     (case api_request c of
        Inl err \<Rightarrow> (Throws err, calls)
      | Inr (path, options) \<Rightarrow> request net path options calls)"

text \<open>The payload of a response as the error shape describes it: the decoded JSON body,
  or \<open>null\<close> for a response that is not JSON; none while the body has not been decoded.\<close>

definition decoded_payload :: "response \<Rightarrow> jsval option" where
  "decoded_payload r =
     (if isJson r then (case resp_json r of BodyJson p \<Rightarrow> Some p | _ \<Rightarrow> None) else Some JNull)"

section \<open>Saving the odds (components/OddsForm)\<close>

text \<open>An entry as the object it is in the body of the request.\<close>

definition entry_json :: "odds_entry \<Rightarrow> jsval" where
  "entry_json e =
     JObj [(''bookmaker'', JStr (bookmaker e)), (''market_type'', JStr (market_type e)),
           (''selection'', selection e), (''odds_value'', JNum (odds_value e)),
           (''map_number'', map_number e)]"

text \<open>The state of the form that the two save handlers touch, with the results they
  passed to \<open>onSaved\<close>.\<close>

record form_state =
  batchText :: string
  busy :: bool
  form_error :: string
  onSaved_calls :: "jsval list"

text \<open>The common part of the two handlers once the entries are collected; \<open>net\<close> is what
  the call of \<open>fetch\<close> behind \<open>api.saveOdds\<close> does, and the second component is the list
  of the calls of \<open>fetch\<close> made so far. While the request is pending the handler is
  suspended, with \<open>busy\<close> still set.\<close>

definition save_entries ::
  "fetch_behaviour \<Rightarrow> jsval \<Rightarrow> string \<Rightarrow> bool \<Rightarrow> js_error + odds_entry list \<Rightarrow>
   form_state \<times> (string \<times> fetch_init) list \<Rightarrow> form_state \<times> (string \<times> fetch_init) list" where
  "save_entries net matchId empty_msg clear collected sc =
     (let st1 = (fst sc)\<lparr>form_error := [], busy := True\<rparr>; calls = snd sc
      in case collected of
           Inl err \<Rightarrow> (st1\<lparr>form_error := err_message err, busy := False\<rparr>, calls)
         | Inr entries \<Rightarrow>
             if entries = []
             then (st1\<lparr>form_error := err_message (new_Error empty_msg), busy := False\<rparr>, calls)
             else (case api net (saveOdds matchId (JObj [(''entries'', JArr (map entry_json entries))]))
                          calls of
                     (Pending, calls') \<Rightarrow> (st1, calls')
                   | (Throws err, calls') \<Rightarrow>
                       (st1\<lparr>form_error := err_message err, busy := False\<rparr>, calls')
                   | (Returns res, calls') \<Rightarrow>
                       ((if clear then st1\<lparr>batchText := []\<rparr> else st1)
                          \<lparr>onSaved_calls := onSaved_calls st1 @ [res], busy := False\<rparr>, calls')))"

definition saveStructured ::
  "fetch_behaviour \<Rightarrow> jsval \<Rightarrow> jsval \<Rightarrow> jsval \<Rightarrow> jsval \<Rightarrow>
   form_state \<times> (string \<times> fetch_init) list \<Rightarrow> form_state \<times> (string \<times> fetch_init) list" where
  "saveStructured net matchId values teams maps sc =
     save_entries net matchId ''Preencha pelo menos uma odd valida.'' False
       (collectStructuredEntries values teams maps) sc"

definition saveBatch ::
  "fetch_behaviour \<Rightarrow> jsval \<Rightarrow>
   form_state \<times> (string \<times> fetch_init) list \<Rightarrow> form_state \<times> (string \<times> fetch_init) list" where
  "saveBatch net matchId sc =
     save_entries net matchId ''Nenhuma odd valida no batch paste.'' True
       (Inr (parseBatch (batchText (fst sc)))) sc"

section \<open>The dashboard page (pages/Dashboard)\<close>

definition MATCHES_LIMIT :: jsval where
  "MATCHES_LIMIT = JNum (Fin 80)"

text \<open>The state of \<open>DashboardPage\<close>.\<close>

record dashboard =
  matches :: jsval
  events :: jsval
  config :: jsval
  loading :: bool
  error :: string
  eventFilter :: string
  statusFilter :: string
  dateFrom :: string
  dateTo :: string
  fromYear :: jsnum

text \<open>\<open>Promise.all\<close>: fulfilled with all the values once every promise is fulfilled,
  rejected as soon as one is rejected, with the rejection that comes first in time:
  that of the promise number \<open>first\<close> if that one is rejected, of the first rejected of the
  list otherwise.\<close>

definition Promise_all :: "nat \<Rightarrow> 'a outcome list \<Rightarrow> 'a list outcome" where
  "Promise_all first ps =
     (let thrown = List.map_filter (\<lambda>p. case p of Throws e \<Rightarrow> Some e | _ \<Rightarrow> None) ps
      in if thrown \<noteq> []
         then Throws (case (if first < length ps then ps ! first else Pending) of
                        Throws e \<Rightarrow> e
                      | _ \<Rightarrow> hd thrown)
         else if list_ex (\<lambda>p. case p of Pending \<Rightarrow> True | _ \<Rightarrow> False) ps then Pending
         else Returns (List.map_filter (\<lambda>p. case p of Returns v \<Rightarrow> Some v | _ \<Rightarrow> None) ps))"

text \<open>\<open>Array.isArray(res) ? res : (res?.items ?? [])\<close>.\<close>

definition items_of :: "jsval \<Rightarrow> jsval" where
  "items_of res = (case res of JArr _ \<Rightarrow> res | _ \<Rightarrow> nullish_or (opt_prop res ''items'') (JArr []))"

text \<open>The \<open>params\<close> object of \<open>loadData\<close>.\<close>

definition matches_params :: "dashboard \<Rightarrow> jsval" where
  "matches_params st =
     JObj ((if eventFilter st \<noteq> [] then [(''eventIds'', JArr [JNum (StringToNumber (eventFilter st))])]
            else []) @
           [(''status'', js_or (JStr (statusFilter st)) JUndefined),
            (''dateFrom'', js_or (JStr (dateFrom st)) JUndefined),
            (''dateTo'', js_or (JStr (dateTo st)) JUndefined),
            (''fromYear'', JNum (fromYear st)),
            (''limit'', MATCHES_LIMIT)])"

text \<open>\<open>loadData\<close>, given what the three calls of \<open>fetch\<close> do and which rejection comes
  first. While \<open>Promise.all\<close> is pending no handler has run.\<close>

definition loadData ::
  "fetch_behaviour \<Rightarrow> fetch_behaviour \<Rightarrow> fetch_behaviour \<Rightarrow> nat \<Rightarrow>
   dashboard \<times> (string \<times> fetch_init) list \<Rightarrow> dashboard \<times> (string \<times> fetch_init) list" where
  "loadData netEvents netConfig netMatches first sc =
     (let st1 = (fst sc)\<lparr>loading := True, error := []\<rparr>;
          (eventsP, calls1) = api netEvents (getEvents (JObj [(''fromYear'', JNum (fromYear st1))])) (snd sc);
          (configP, calls2) = api netConfig getConfig calls1;
          (matchesP, calls3) = api netMatches (getMatches (matches_params st1)) calls2
      in (case Promise_all first [eventsP, configP, matchesP] of
            Pending \<Rightarrow> st1
          | Returns rs \<Rightarrow>
              st1\<lparr>events := items_of (rs ! 0), config := rs ! 1, matches := items_of (rs ! 2),
                  loading := False\<rparr>
          | Throws err \<Rightarrow>
              st1\<lparr>error := (if err_message err \<noteq> [] then err_message err else ''Erro ao carregar''),
                  events := JArr [], matches := JArr [], loading := False\<rparr>,
          calls3))"

section \<open>The formatting helpers on a store\<close>

text \<open>
  The functions above work on the contents of values. Arrays and objects, however, have
  an identity and can be changed in place: \<open>sort\<close> reorders the array it is called on.
  To see what the helpers of \<open>utils/formatBo\<close> do to the objects that exist, the same
  code is written here over a store: the list of the arrays and objects that exist,
  each with its contents, an address being a position in the list. A variable holds a
  primitive value or the address of an object.
\<close>

type_synonym store = "jsval list"

datatype jsref = Prim jsval | Ref nat

text \<open>The contents behind what a variable holds.\<close>

definition deref :: "store \<Rightarrow> jsref \<Rightarrow> jsval" where
  "deref h x = (case x of Prim v \<Rightarrow> v | Ref a \<Rightarrow> if a < length h then h ! a else JUndefined)"

text \<open>A new array or object: it gets the next address.\<close>

definition alloc :: "jsval \<Rightarrow> store \<Rightarrow> jsref \<times> store" where
  "alloc v h = (Ref (length h), h @ [v])"

definition elements :: "jsval \<Rightarrow> jsval list" where
  "elements v = (case v of JArr xs \<Rightarrow> xs | _ \<Rightarrow> [])"

text \<open>\<open>a.filter(p)\<close> and \<open>a.map(f)\<close> make a new array; \<open>a.sort()\<close> reorders \<open>a\<close> itself, by
  the strings of its elements, and returns \<open>a\<close>; \<open>[...a, ...b]\<close> makes a new array.\<close>

definition array_filter :: "(jsval \<Rightarrow> bool) \<Rightarrow> jsref \<Rightarrow> store \<Rightarrow> jsref \<times> store" where
  "array_filter p a h = alloc (JArr (filter p (elements (deref h a)))) h"

definition array_map :: "(jsval \<Rightarrow> jsval) \<Rightarrow> jsref \<Rightarrow> store \<Rightarrow> jsref \<times> store" where
  "array_map f a h = alloc (JArr (map f (elements (deref h a)))) h"

definition array_sort :: "jsref \<Rightarrow> store \<Rightarrow> jsref \<times> store" where
  "array_sort a h =
     (case a of
        Ref i \<Rightarrow> (a, if i < length h then h[i := JArr (sort_key ToString (elements (h ! i)))] else h)
      | Prim _ \<Rightarrow> (a, h))"

definition array_concat :: "jsref \<Rightarrow> jsref \<Rightarrow> store \<Rightarrow> jsref \<times> store" where
  "array_concat a b h = alloc (JArr (elements (deref h a) @ elements (deref h b))) h"

definition array_includes :: "jsval \<Rightarrow> jsval \<Rightarrow> bool" where
  "array_includes arr x = (x \<in> set (elements arr))"

definition Object_keys_store :: "jsref \<Rightarrow> store \<Rightarrow> jsref \<times> store" where
  "Object_keys_store x h = alloc (JArr (map JStr (Object_keys (deref h x)))) h"

text \<open>The two arrays of the module, \<open>BO3_ORDER\<close> and \<open>BO5_ORDER\<close>, are objects of the
  store like any other: the module holds their addresses.\<close>

record formatBo_module =
  BO3_ORDER_ref :: nat
  BO5_ORDER_ref :: nat

definition formatBoType_store :: "jsref \<Rightarrow> store \<Rightarrow> string \<times> store" where
  "formatBoType_store boType h = (formatBoType (deref h boType), h)"

definition resolveBoType_store :: "jsref \<Rightarrow> jsref \<Rightarrow> jsref \<Rightarrow> store \<Rightarrow> string \<times> store" where
  "resolveBoType_store boType score1 score2 h =
     (resolveBoType (deref h boType) (deref h score1) (deref h score2), h)"

definition inferSeriesFormatFromScoreProbs_store :: "jsref \<Rightarrow> store \<Rightarrow> string \<times> store" where
  "inferSeriesFormatFromScoreProbs_store scoreProbs h =
     (if \<not> ToBoolean (deref h scoreProbs) \<or> typeof (deref h scoreProbs) \<noteq> ''object''
      then (''Bo3'', h)
      else let (keys, h1) = Object_keys_store scoreProbs h;
               hasThree = list_ex (\<lambda>k. startsWith (ToString k) ''3-'' \<or> endsWith (ToString k) ''-3'')
                            (elements (deref h1 keys))
           in (if hasThree then ''Bo5'' else ''Bo3'', h1))"

text \<open>An entry of the chart data as the object it is.\<close>

definition chart_entry_object :: "jsval \<Rightarrow> jsval \<Rightarrow> jsval" where
  "chart_entry_object scoreProbs key =
     JObj [(''score'', key),
           (''probability'',
            JNum (StringToNumber
                    (toFixed 2 (num_mul (ToNumber (nullish_or (get_prop scoreProbs (ToString key))
                                                     (JNum (Fin 0))))
                                  (Fin 100)))))]"

definition seriesChartData_store ::
  "formatBo_module \<Rightarrow> jsref \<Rightarrow> jsref \<Rightarrow> store \<Rightarrow> jsref \<times> store" where
  "seriesChartData_store env scoreProbs format h =
     (if \<not> ToBoolean (deref h scoreProbs) \<or> typeof (deref h scoreProbs) \<noteq> ''object''
      then alloc (JArr []) h
      else let order = Ref (if deref h format = JStr ''Bo5'' then BO5_ORDER_ref env
                            else BO3_ORDER_ref env);
               (ordered, h1) =
                  array_filter (\<lambda>s. \<not> is_nullish (get_prop (deref h scoreProbs) (ToString s))) order h;
               (keys, h2) = Object_keys_store scoreProbs h1;
               (unordered, h3) = array_filter (\<lambda>s. \<not> array_includes (deref h2 order) s) keys h2;
               (rest, h4) = array_sort unordered h3;
               (allKeys, h5) = array_concat ordered rest h4
           in array_map (chart_entry_object (deref h5 scoreProbs)) allKeys h5)"

text \<open>What the two module arrays hold, and that a variable holds a primitive or the
  address of an existing object.\<close>

definition module_loaded :: "formatBo_module \<Rightarrow> store \<Rightarrow> bool" where
  "module_loaded env h =
     (BO3_ORDER_ref env < length h \<and> h ! BO3_ORDER_ref env = JArr (map JStr BO3_ORDER) \<and>
      BO5_ORDER_ref env < length h \<and> h ! BO5_ORDER_ref env = JArr (map JStr BO5_ORDER))"

definition in_store :: "store \<Rightarrow> jsref \<Rightarrow> bool" where
  "in_store h x = (case x of Prim _ \<Rightarrow> True | Ref a \<Rightarrow> a < length h)"

text \<open>A chart entry of the functions on contents, as the object it is.\<close>

definition entry_object :: "chart_entry \<Rightarrow> jsval" where
  "entry_object e = JObj [(''score'', JStr (score e)), (''probability'', JNum (probability e))]"

chapter \<open>Properties\<close>

section \<open>Facts about the string and number primitives\<close>

text \<open>The two bounds as numerals, for evaluation.\<close>

lemma overflow_bound_code [code]:
  "overflow_bound = 179769313486231580793728971405303415079934132710037826936173778980444968292764750946649017977587207096330286416692887910946555547851940402630657488671505820681908902000708383676273854845817711531764475730270069855571366959622842914819860834936475292719074168444365510704342711559699508093042880177904174497792"
  by (simp add: overflow_bound_def)

lemma underflow_bound_code [code]:
  "underflow_bound = 1 / 404804506614621236704990693437834614099113299528284236713802716054860679135990693783920767402874248990374155728633623822779617474771586953734026799881477019843034848553132722728933815484186432682479535356945490137124014966849385397236206711298319112681620113024717539104666829230461005064372655017292012526615415482186989568"
  by (simp add: underflow_bound_def)

lemma find_at_single: "find_at [c] s k \<noteq> -1 \<longleftrightarrow> c \<in> set s"
  by (induction s arbitrary: k) (auto simp: startsWith_def)

lemma str_includes_single: "str_includes s [c] \<longleftrightarrow> c \<in> set s"
  by (simp add: str_includes_def indexOf_def find_at_single)


section \<open>Best-of labels\<close>

lemma formatBoType_chars:
  "formatBoType v =
     (if v = JNull \<or> v = JUndefined \<or> v = JStr [] then ''Bo?''
      else if CHR ''5'' \<in> set (toLowerCase (ToString v)) then ''Bo5''
      else if CHR ''3'' \<in> set (toLowerCase (ToString v)) then ''Bo3''
      else ''Bo?'')"
  by (simp add: formatBoType_def Let_def str_includes_single)

lemma lower_BO5: "toLowerCase (ToString (JStr ''BO5'')) = ''bo5''"
  by code_simp

lemma lower_num_3: "toLowerCase (ToString (JNum (Fin 3))) = ''3''"
  by code_simp

lemma lower_TBD: "toLowerCase (ToString (JStr ''TBD'')) = ''tbd''"
  by code_simp

text \<open>
  C4. \<open>formatBoType\<close> returns one of \<open>Bo3\<close>, \<open>Bo5\<close>, \<open>Bo?\<close> on every value: \<open>Bo?\<close> for
  \<open>null\<close>, \<open>undefined\<close> and the empty string; otherwise \<open>Bo5\<close> when the lowercased
  string form of the value contains the character \<open>5\<close>; otherwise \<open>Bo3\<close> when it
  contains the character \<open>3\<close>; otherwise \<open>Bo?\<close>.
\<close>

theorem formatBoType_cases:
  "formatBoType v \<in> {''Bo3'', ''Bo5'', ''Bo?''} \<and>
   formatBoType v =
     (if v = JNull \<or> v = JUndefined \<or> v = JStr [] then ''Bo?''
      else if CHR ''5'' \<in> set (toLowerCase (ToString v)) then ''Bo5''
      else if CHR ''3'' \<in> set (toLowerCase (ToString v)) then ''Bo3''
      else ''Bo?'')"
  by (simp add: formatBoType_chars)

theorem formatBoType_cases_witness:
  "formatBoType (JStr ''BO5'') = ''Bo5'' \<and> formatBoType (JNum (Fin 3)) = ''Bo3'' \<and>
   formatBoType (JStr ''TBD'') = ''Bo?'' \<and> formatBoType JNull = ''Bo?''"
  using formatBoType_cases [of "JStr ''BO5''"] formatBoType_cases [of "JNum (Fin 3)"]
    formatBoType_cases [of "JStr ''TBD''"] formatBoType_cases [of JNull]
  by (simp add: lower_BO5 lower_num_3 lower_TBD del: ToString.simps)




section \<open>Markdown lines\<close>

lemma find_at_range: "find_at sub s k = -1 \<or> int k \<le> find_at sub s k"
  by (induction s arbitrary: k) (auto, force)

lemma indexOf_nonneg: "indexOf s sub pos = -1 \<or> 0 \<le> indexOf s sub pos"
  using find_at_range [of sub "drop (min pos (length s)) s" "min pos (length s)"]
  by (auto simp: indexOf_def Let_def)

lemma str_includes_nonempty: "str_includes s (c # cs) \<Longrightarrow> s \<noteq> []"
  by (auto simp: str_includes_def indexOf_def)

lemma bold_step_shorter:
  assumes "str_includes remaining ''**''" and "bold_step parts remaining = Some (parts', remaining')"
  shows "length remaining' < length remaining"
proof -
  let ?i1 = "indexOf remaining ''**'' 0"
  let ?i2 = "indexOf remaining ''**'' (nat (?i1 + 2))"
  from assms(2) have ne: "?i2 \<noteq> -1" and r: "remaining' = slice_from remaining (?i2 + 2)"
    by (auto simp: bold_step_def Let_def split: if_splits)
  from ne indexOf_nonneg [of remaining "''**''" "nat (?i1 + 2)"] have "0 \<le> ?i2" by auto
  moreover from assms(1) have "remaining \<noteq> []" by (rule str_includes_nonempty)
  ultimately show ?thesis
    unfolding r by (cases remaining) (auto simp: slice_from_def clamp_index_def)
qed

lemma split_char_nonempty: "split_char c s \<noteq> []"
  by (induction s) (auto simp: Let_def)

lemma length_split_char: "length (split_char c s) = Suc (count_list s c)"
proof (induction s)
  case Nil
  show ?case by simp
next
  case (Cons x xs)
  have "split_char c xs \<noteq> []" by (rule split_char_nonempty)
  then have "length (tl (split_char c xs)) = length (split_char c xs) - 1" by simp
  with Cons show ?case by (simp add: Let_def)
qed

lemma bold_step_break:
  "bold_step parts remaining = None \<longleftrightarrow>
   indexOf remaining ''**'' (nat (indexOf remaining ''**'' 0 + 2)) = -1"
  by (simp add: bold_step_def Let_def)

text \<open>
  C10. \<open>renderMarkdownLines\<close> is a total function (its loop is defined with a
  termination proof) and returns exactly one element per newline-separated line, one more
  than the input has newlines. Each turn of the bold-parsing loop either breaks, which
  happens exactly when no closing \<open>**\<close> follows the opening one and leaves \<open>parts\<close> and
  \<open>remaining\<close> as they are, or goes on with a strictly shorter \<open>remaining\<close>.
\<close>

theorem renderMarkdownLines_terminates:
  "length (renderMarkdownLines md) = length (split_char newline md) \<and>
   length (renderMarkdownLines md) = Suc (count_list md newline) \<and>
   (\<forall>parts remaining. str_includes remaining ''**'' \<longrightarrow>
      (case bold_step parts remaining of
         None \<Rightarrow> indexOf remaining ''**'' (nat (indexOf remaining ''**'' 0 + 2)) = -1 \<and>
                 bold_loop parts remaining = (parts, remaining)
       | Some (parts', remaining') \<Rightarrow>
           indexOf remaining ''**'' (nat (indexOf remaining ''**'' 0 + 2)) \<noteq> -1 \<and>
           length remaining' < length remaining \<and>
           bold_loop parts remaining = bold_loop parts' remaining')) \<and>
   (\<forall>parts remaining. \<not> str_includes remaining ''**'' \<longrightarrow>
      bold_loop parts remaining = (parts, remaining))"
proof (intro conjI allI impI)
  show "length (renderMarkdownLines md) = length (split_char newline md)"
    by (simp add: renderMarkdownLines_def Let_def)
  then show "length (renderMarkdownLines md) = Suc (count_list md newline)"
    by (simp add: length_split_char)
next
  fix parts remaining
  assume inc: "str_includes remaining ''**''"
  show "case bold_step parts remaining of
         None \<Rightarrow> indexOf remaining ''**'' (nat (indexOf remaining ''**'' 0 + 2)) = -1 \<and>
                 bold_loop parts remaining = (parts, remaining)
       | Some (parts', remaining') \<Rightarrow>
           indexOf remaining ''**'' (nat (indexOf remaining ''**'' 0 + 2)) \<noteq> -1 \<and>
           length remaining' < length remaining \<and>
           bold_loop parts remaining = bold_loop parts' remaining'"
  proof (cases "bold_step parts remaining")
    case None
    then have "indexOf remaining ''**'' (nat (indexOf remaining ''**'' 0 + 2)) = -1"
      by (simp add: bold_step_break)
    moreover from inc None have "bold_loop parts remaining = (parts, remaining)"
      by (simp add: bold_loop.simps [of parts remaining])
    ultimately show ?thesis using None by simp
  next
    case (Some pr)
    obtain parts' remaining' where pr: "pr = (parts', remaining')" by (cases pr)
    from Some have "bold_step parts remaining \<noteq> None" by simp
    then have "indexOf remaining ''**'' (nat (indexOf remaining ''**'' 0 + 2)) \<noteq> -1"
      by (simp add: bold_step_break)
    moreover from inc Some pr have "length remaining' < length remaining"
      by (auto intro: bold_step_shorter)
    moreover from inc Some pr have "bold_loop parts remaining = bold_loop parts' remaining'"
      by (simp add: bold_loop.simps [of parts remaining])
    ultimately show ?thesis using Some pr by simp
  qed
next
  fix parts remaining
  assume "\<not> str_includes remaining ''**''"
  then show "bold_loop parts remaining = (parts, remaining)"
    by (simp add: bold_loop.simps [of parts remaining])
qed

lemma render_example:
  "renderMarkdownLines (''## T'' @ [newline] @ ''- a **b** c **d'' @ [newline] @ [newline] @ ''x'') =
     [H2 0 ''T'', ListP 1 [Text ''a '', Strong 1 ''b'', Text '' c **d''], Br 2, P 3 ''x'']"
  by code_simp

theorem renderMarkdownLines_terminates_witness:
  "length (renderMarkdownLines (''## T'' @ [newline] @ ''- a **b** c'')) = 2 \<and>
   str_includes ''a **b** c'' ''**'' \<and>
   bold_step [] ''a **b** c'' = Some ([Text ''a '', Strong 1 ''b''], '' c'') \<and>
   length '' c'' < length ''a **b** c'' \<and>
   bold_loop [] ''a **b** c'' = bold_loop [Text ''a '', Strong 1 ''b''] '' c'' \<and>
   bold_loop [Text ''a '', Strong 1 ''b''] '' c'' = ([Text ''a '', Strong 1 ''b''], '' c'') \<and>
   str_includes ''a **b'' ''**'' \<and>
   bold_step [] ''a **b'' = None \<and>
   bold_loop [] ''a **b'' = ([], ''a **b'')"
proof -
  note T = renderMarkdownLines_terminates [of "''## T'' @ [newline] @ ''- a **b** c''"]
  have n: "count_list (''## T'' @ [newline] @ ''- a **b** c'') newline = 1"
    by (simp add: newline_def)
  from T n have len: "length (renderMarkdownLines (''## T'' @ [newline] @ ''- a **b** c'')) = 2"
    by simp
  from T have step: "str_includes r ''**'' \<longrightarrow>
      (case bold_step p r of
         None \<Rightarrow> indexOf r ''**'' (nat (indexOf r ''**'' 0 + 2)) = -1 \<and> bold_loop p r = (p, r)
       | Some (p', r') \<Rightarrow>
           indexOf r ''**'' (nat (indexOf r ''**'' 0 + 2)) \<noteq> -1 \<and>
           length r' < length r \<and> bold_loop p r = bold_loop p' r')" for p r
    by blast
  from T have stop: "\<not> str_includes r ''**'' \<longrightarrow> bold_loop p r = (p, r)" for p r
    by blast
  have i1: "str_includes ''a **b** c'' ''**''" by code_simp
  have s1: "bold_step [] ''a **b** c'' = Some ([Text ''a '', Strong 1 ''b''], '' c'')"
    by code_simp
  have i2: "\<not> str_includes '' c'' ''**''" by code_simp
  have i3: "str_includes ''a **b'' ''**''" by code_simp
  have s3: "bold_step [] ''a **b'' = None" by code_simp
  from step [of "''a **b** c''" "[]"] i1 s1
  have a: "bold_loop [] ''a **b** c'' = bold_loop [Text ''a '', Strong 1 ''b''] '' c''"
    by simp
  from stop [of "'' c''" "[Text ''a '', Strong 1 ''b'']"] i2
  have b: "bold_loop [Text ''a '', Strong 1 ''b''] '' c'' = ([Text ''a '', Strong 1 ''b''], '' c'')"
    by simp
  from step [of "''a **b''" "[]"] i3 s3
  have c: "bold_loop [] ''a **b'' = ([], ''a **b'')"
    by simp
  from len i1 s1 a b i3 s3 c show ?thesis by simp
qed

section \<open>Printing and reading decimals\<close>





lemma digits_of_nat_nonempty: "digits_of_nat n \<noteq> []"
  by (simp add: digits_of_nat.simps [of n])















section \<open>Chart data\<close>








section \<open>The edges table\<close>









section \<open>The odds form\<close>

lemma parse_line_valid:
  assumes "parse_line line = Some e"
  shows "\<exists>q. odds_value e = Fin q \<and> 1 < q"
proof -
  let ?x = "StringToNumber (split_ws line ! (length (split_ws line) - 1))"
  from assms have x: "isFinite ?x" "\<not> num_le ?x (Fin 1)" and e: "odds_value e = ?x"
    by (auto simp: parse_line_def Let_def split: if_splits)
  from x(1) obtain q where q: "?x = Fin q" by (cases ?x) (simp_all add: isFinite_def)
  with x(2) have "1 < q" by (simp add: num_le_def num_less_def)
  with e q show ?thesis by simp
qed

lemma parseBatch_valid:
  assumes "e \<in> set (parseBatch text)"
  shows "\<exists>q. odds_value e = Fin q \<and> 1 < q"
proof -
  from assms obtain line where "parse_line line = Some e"
    by (auto simp: parseBatch_def List.map_filter_def)
  then show ?thesis by (rule parse_line_valid)
qed

lemma parse_line_dropped:
  "length (split_ws line) < 4 \<or>
   \<not> isFinite (StringToNumber (last (split_ws line))) \<or>
   num_le (StringToNumber (last (split_ws line))) (Fin 1) \<Longrightarrow> parse_line line = None"
  by (cases "split_ws line = []") (auto simp: parse_line_def Let_def last_conv_nth)

lemma push_if_gt: "e \<in> set (push_if values key book market sel n) \<Longrightarrow> num_gt (odds_value e) (Fin 1)"
  by (auto simp: push_if_def Let_def split: if_splits)

lemma collectStructuredEntries_gt:
  assumes "collectStructuredEntries values teams maps = Inr entries" and "e \<in> set entries"
  shows "num_gt (odds_value e) (Fin 1)"
  using assms
  by (auto simp: collectStructuredEntries_def Let_def match_winner_entries_def map_entries_def
      split: jsval.splits if_splits dest: push_if_gt)

section \<open>The API client\<close>

lemma request_calls:
  "snd (request net path options calls) =
     calls @ [(path, \<lparr>init_method = opt_method options, init_body = opt_body options,
                       init_headers = spread DEFAULT_HEADERS (opt_headers options),
                       init_abort_after = 30000\<rparr>)]"
  by (simp add: request_def Let_def REQUEST_TIMEOUT_MS_def)



lemma request_resolved:
  assumes "settle_time net = Some t" "t \<le> 30000" "settle_result net = Resolves r"
  shows "fst (request net path options calls) =
           (case (if isJson r then resp_json r else BodyJson JNull) of
              BodyPending \<Rightarrow> Pending
            | BodyFails err \<Rightarrow> request_catch err
            | BodyJson payload \<Rightarrow>
                if \<not> resp_ok r then request_catch (response_error r payload) else Returns payload)"
  using assms
  by (simp add: request_def Let_def await_fetch_def REQUEST_TIMEOUT_MS_def)

lemma response_error_shape:
  "err_name (response_error r payload) = ''Error'' \<and>
   err_status (response_error r payload) = Some (resp_status r) \<and>
   err_payload (response_error r payload) = Some payload"
  by (simp add: response_error_def Let_def new_Error_def)

lemma request_resolved_payload:
  assumes "settle_time net = Some t" "t \<le> 30000" "settle_result net = Resolves r"
    and "decoded_payload r = Some payload"
  shows "fst (request net path options calls) =
           (if resp_ok r then Returns payload else Throws (response_error r payload))"
proof -
  from assms(4) have "(if isJson r then resp_json r else BodyJson JNull) = BodyJson payload"
    by (auto simp: decoded_payload_def split: if_splits body_result.splits)
  with request_resolved [OF assms(1-3)] show ?thesis
    by (simp add: request_catch_def response_error_shape)
qed

lemma response_error_message:
  "(\<forall>s. opt_prop payload ''detail'' = JStr s \<and> s \<noteq> [] \<longrightarrow>
      err_message (response_error r payload) = s) \<and>
   (\<forall>s. \<not> ToBoolean (opt_prop payload ''detail'') \<and> opt_prop payload ''error'' = JStr s \<and> s \<noteq> [] \<longrightarrow>
      err_message (response_error r payload) = s) \<and>
   (\<not> ToBoolean (opt_prop payload ''detail'') \<and> \<not> ToBoolean (opt_prop payload ''error'') \<longrightarrow>
      err_message (response_error r payload) =
        ''Request failed ('' @ digits_of_nat (resp_status r) @ '')'')"
  by (auto simp: response_error_def Let_def new_Error_def js_or_def ToBoolean_def)




section \<open>Saving the odds\<close>

lemma save_entries_empty:
  "snd (save_entries net matchId msg clear (Inr []) (st, calls)) = calls \<and>
   form_error (fst (save_entries net matchId msg clear (Inr []) (st, calls))) = msg \<and>
   \<not> busy (fst (save_entries net matchId msg clear (Inr []) (st, calls)))"
  by (simp add: save_entries_def new_Error_def)

lemma saveBatch_no_entries:
  assumes "parseBatch (batchText st) = []"
  shows "snd (saveBatch net matchId (st, calls)) = calls \<and>
         form_error (fst (saveBatch net matchId (st, calls))) = ''Nenhuma odd valida no batch paste.''"
  using assms save_entries_empty [of net matchId _ True st calls]
  by (simp add: saveBatch_def)

lemma saveStructured_no_entries:
  assumes "collectStructuredEntries values teams maps = Inr []"
  shows "snd (saveStructured net matchId values teams maps (st, calls)) = calls \<and>
         form_error (fst (saveStructured net matchId values teams maps (st, calls))) =
           ''Preencha pelo menos uma odd valida.''"
  using assms save_entries_empty [of net matchId _ False st calls]
  by (simp add: saveStructured_def)

lemma save_entries_calls:
  assumes "entries \<noteq> []"
  shows "snd (save_entries net matchId msg clear (Inr entries) (st, calls)) =
     calls @ [(''/api/matches/'' @ ToString matchId @ ''/odds'',
               \<lparr>init_method = Some ''POST'',
                 init_body = JSON_stringify (JObj [(''entries'', JArr (map entry_json entries))]),
                 init_headers = spread DEFAULT_HEADERS [],
                 init_abort_after = 30000\<rparr>)]"
proof -
  let ?body = "JObj [(''entries'', JArr (map entry_json entries))]"
  have "snd (api net (saveOdds matchId ?body) calls) =
      calls @ [(''/api/matches/'' @ ToString matchId @ ''/odds'',
               \<lparr>init_method = Some ''POST'', init_body = JSON_stringify ?body,
                 init_headers = spread DEFAULT_HEADERS [], init_abort_after = 30000\<rparr>)]"
    by (simp add: api_def with_body_def request_calls del: JSON_stringify.simps)
  with assms show ?thesis
    by (cases "api net (saveOdds matchId ?body) calls"; cases "fst (api net (saveOdds matchId ?body) calls)")
      (simp_all add: save_entries_def Let_def del: JSON_stringify.simps)
qed

lemma StringToNumber_Infinity: "StringToNumber ''Infinity'' = PosInf"
  by code_simp

lemma collect_Infinity:
  "collectStructuredEntries (JObj [(''match_winner_betano_a'', JStr ''Infinity'')]) JNull JNull =
     Inr [\<lparr>bookmaker = ''betano'', market_type = ''match_winner'', selection = JStr ''Team A'',
           odds_value = PosInf, map_number = JNull\<rparr>]"
  by code_simp

text \<open>
  C9. Every entry of \<open>parseBatch\<close> has a finite \<open>odds_value\<close> above 1
  (\<open>parseBatch_valid\<close>), lines with fewer than four tokens or with a last token that is
  not a finite number above 1 are dropped (\<open>parse_line_dropped\<close>), and without entries
  neither handler calls the API (\<open>saveBatch_no_entries\<close>, \<open>saveStructured_no_entries\<close>).
  The structured form only tests \<open>x > 1\<close>, which \<open>Infinity\<close> passes: with \<open>Infinity\<close>
  typed into the first field, \<open>collectStructuredEntries\<close> returns an entry whose
  \<open>odds_value\<close> is not finite, \<open>saveStructured\<close> posts it, and in the body of the
  request the value is \<open>null\<close>. \<open>parseBatch\<close> drops the same token.
\<close>

theorem saveStructured_submits_infinite_odds:
  "collectStructuredEntries (JObj [(''match_winner_betano_a'', JStr ''Infinity'')]) JNull JNull =
     Inr [\<lparr>bookmaker = ''betano'', market_type = ''match_winner'', selection = JStr ''Team A'',
           odds_value = PosInf, map_number = JNull\<rparr>] \<and>
   \<not> isFinite PosInf \<and>
   snd (saveStructured net (JNum (Fin 7)) (JObj [(''match_winner_betano_a'', JStr ''Infinity'')])
          JNull JNull
          (\<lparr>batchText = [], busy = False, form_error = [], onSaved_calls = []\<rparr>, [])) =
     [(''/api/matches/7/odds'',
       \<lparr>init_method = Some ''POST'',
         init_body = JSON_stringify (JObj [(''entries'', JArr
           [JObj [(''bookmaker'', JStr ''betano''), (''market_type'', JStr ''match_winner''),
                  (''selection'', JStr ''Team A''), (''odds_value'', JNum PosInf),
                  (''map_number'', JNull)]])]),
         init_headers = [(''Content-Type'', ''application/json'')],
         init_abort_after = 30000\<rparr>)] \<and>
   JSON_stringify (JNum PosInf) = Some ''null'' \<and>
   parseBatch ''betano match_winner TeamA Infinity'' = []"
proof -
  have 1: "parseBatch ''betano match_winner TeamA Infinity'' = []" by code_simp
  have 2: "ToString (JNum (Fin 7)) = ''7''" by code_simp
  have 3: "spread DEFAULT_HEADERS [] = [(''Content-Type'', ''application/json'')]"
    by (simp add: spread_def DEFAULT_HEADERS_def)
  have 4: "JSON_stringify (JNum PosInf) = Some ''null''" by (simp add: isFinite_def)
  show ?thesis
    unfolding saveStructured_def collect_Infinity
    by (simp add: save_entries_calls 1 2 3 4 entry_json_def isFinite_def
        del: JSON_stringify.simps ToString.simps)
qed

section \<open>The dashboard page\<close>

lemma api_fst_calls: "fst (api net c calls) = fst (api net c [])"
  by (cases "api_request c") (auto simp: api_def request_def Let_def split: prod.splits)

lemma Promise_all_returns:
  "Promise_all first [Returns a, Returns b, Returns c] = Returns [a, b, c]"
  by (simp add: Promise_all_def)

lemma Promise_all_throws:
  assumes "\<exists>e. p = Throws e \<or> q = Throws e \<or> r = Throws e"
  shows "\<exists>e. Promise_all first [p, q, r] = Throws e \<and> (p = Throws e \<or> q = Throws e \<or> r = Throws e)"
proof -
  define thrown where
    "thrown = List.map_filter (\<lambda>p. case p of Throws e \<Rightarrow> Some e | _ \<Rightarrow> None) [p, q, r]"
  define chosen where "chosen = (if first < length [p, q, r] then [p, q, r] ! first else Pending)"
  from assms have ne: "thrown \<noteq> []"
    by (auto simp: thrown_def split: outcome.splits)
  have hd_in: "Throws (hd thrown) \<in> {p, q, r}"
    using ne unfolding thrown_def by (cases p; cases q; cases r) auto
  have ch: "chosen = Pending \<or> chosen \<in> {p, q, r}"
  proof (cases "first < 3")
    case False
    then show ?thesis by (simp add: chosen_def)
  next
    case True
    then have "first = 0 \<or> first = 1 \<or> first = 2" by auto
    then show ?thesis by (auto simp: chosen_def)
  qed
  have "Promise_all first [p, q, r] = Throws (case chosen of Throws e \<Rightarrow> e | _ \<Rightarrow> hd thrown)"
    unfolding Promise_all_def Let_def thrown_def [symmetric] chosen_def [symmetric]
    using ne by simp
  moreover have "Throws (case chosen of Throws e \<Rightarrow> e | _ \<Rightarrow> hd thrown) \<in> {p, q, r}"
    using ch hd_in by (cases chosen) auto
  ultimately show ?thesis by auto
qed

lemma Promise_all_pending:
  assumes "\<not> (\<exists>e. p = Throws e \<or> q = Throws e \<or> r = Throws e)"
    and "p = Pending \<or> q = Pending \<or> r = Pending"
  shows "Promise_all first [p, q, r] = Pending"
  using assms by (cases p; cases q; cases r) (auto simp: Promise_all_def)
lemma loadData_state:
  "fst (loadData netEvents netConfig netMatches first (st, calls)) =
     (let st1 = st\<lparr>loading := True, error := []\<rparr>
      in case Promise_all first
                [fst (api netEvents (getEvents (JObj [(''fromYear'', JNum (fromYear st))])) []),
                 fst (api netConfig getConfig []),
                 fst (api netMatches (getMatches (matches_params st)) [])] of
           Pending \<Rightarrow> st1
         | Returns rs \<Rightarrow>
             st1\<lparr>events := items_of (rs ! 0), config := rs ! 1, matches := items_of (rs ! 2),
                 loading := False\<rparr>
         | Throws err \<Rightarrow>
             st1\<lparr>error := (if err_message err \<noteq> [] then err_message err else ''Erro ao carregar''),
                 events := JArr [], matches := JArr [], loading := False\<rparr>)"
proof -
  have p: "matches_params (st\<lparr>loading := True, error := []\<rparr>) = matches_params st"
    by (simp add: matches_params_def)
  show ?thesis
    unfolding loadData_def Let_def
    by (simp add: p split_beta api_fst_calls [of _ _ "snd _"] api_fst_calls [of _ _ calls]
        del: api_request.simps split: outcome.splits)
qed

lemma items_of_cases:
  "(\<forall>xs. items_of (JArr xs) = JArr xs) \<and>
   (\<forall>kvs v. map_of kvs ''items'' = Some v \<and> \<not> is_nullish v \<longrightarrow> items_of (JObj kvs) = v) \<and>
   (\<forall>res. (\<forall>xs. res \<noteq> JArr xs) \<and> is_nullish (opt_prop res ''items'') \<longrightarrow> items_of res = JArr [])"
  by (auto simp: items_of_def nullish_or_def opt_prop_def get_prop_def is_nullish_def
      split: jsval.splits)

text \<open>
  C7. When \<open>loadData\<close> completes, that is when one of the three requests has failed or all
  three have succeeded, the loading flag is false and exactly one of two outcomes holds:
  all three requests succeeded, and events, config and matches are set from the three
  responses (an array as it is, otherwise the \<open>items\<close> field, otherwise the empty list);
  or a request failed, the error message is set (to the message of a failed request, or
  to the default text when that is empty), and events and matches are empty lists.
\<close>

theorem loadData_outcomes:
  "(let e = fst (api netEvents (getEvents (JObj [(''fromYear'', JNum (fromYear st))])) []);
        c = fst (api netConfig getConfig []);
        m = fst (api netMatches (getMatches (matches_params st)) []);
        st' = fst (loadData netEvents netConfig netMatches first (st, calls))
    in ((\<exists>err. e = Throws err \<or> c = Throws err \<or> m = Throws err) \<or>
        (\<exists>er cr mr. e = Returns er \<and> c = Returns cr \<and> m = Returns mr) \<longrightarrow>
          \<not> loading st' \<and>
          ((\<exists>er cr mr. e = Returns er \<and> c = Returns cr \<and> m = Returns mr \<and>
              events st' = items_of er \<and> config st' = cr \<and> matches st' = items_of mr) \<noteq>
           ((\<exists>err. (e = Throws err \<or> c = Throws err \<or> m = Throws err) \<and>
                error st' = (if err_message err \<noteq> [] then err_message err
                             else ''Erro ao carregar'')) \<and>
            error st' \<noteq> [] \<and> events st' = JArr [] \<and> matches st' = JArr [])))) \<and>
   (\<forall>xs. items_of (JArr xs) = JArr xs) \<and>
   (\<forall>kvs v. map_of kvs ''items'' = Some v \<and> \<not> is_nullish v \<longrightarrow> items_of (JObj kvs) = v) \<and>
   (\<forall>res. (\<forall>xs. res \<noteq> JArr xs) \<and> is_nullish (opt_prop res ''items'') \<longrightarrow> items_of res = JArr [])"
proof -
  define e where "e = fst (api netEvents (getEvents (JObj [(''fromYear'', JNum (fromYear st))])) [])"
  define c where "c = fst (api netConfig getConfig [])"
  define m where "m = fst (api netMatches (getMatches (matches_params st)) [])"
  define st' where "st' = fst (loadData netEvents netConfig netMatches first (st, calls))"
  define st1 where "st1 = st\<lparr>loading := True, error := []\<rparr>"
  have st': "st' = (case Promise_all first [e, c, m] of
           Pending \<Rightarrow> st1
         | Returns rs \<Rightarrow>
             st1\<lparr>events := items_of (rs ! 0), config := rs ! 1, matches := items_of (rs ! 2),
                 loading := False\<rparr>
         | Throws err \<Rightarrow>
             st1\<lparr>error := (if err_message err \<noteq> [] then err_message err else ''Erro ao carregar''),
                 events := JArr [], matches := JArr [], loading := False\<rparr>)"
    unfolding st'_def e_def c_def m_def st1_def loadData_state Let_def ..
  have main: "\<not> loading st' \<and>
      ((\<exists>er cr mr. e = Returns er \<and> c = Returns cr \<and> m = Returns mr \<and>
          events st' = items_of er \<and> config st' = cr \<and> matches st' = items_of mr) \<noteq>
       ((\<exists>err. (e = Throws err \<or> c = Throws err \<or> m = Throws err) \<and>
            error st' = (if err_message err \<noteq> [] then err_message err else ''Erro ao carregar'')) \<and>
        error st' \<noteq> [] \<and> events st' = JArr [] \<and> matches st' = JArr []))"
    if compl: "(\<exists>err. e = Throws err \<or> c = Throws err \<or> m = Throws err) \<or>
        (\<exists>er cr mr. e = Returns er \<and> c = Returns cr \<and> m = Returns mr)"
  proof (cases "\<exists>err. e = Throws err \<or> c = Throws err \<or> m = Throws err")
    case True
    from Promise_all_throws [OF True, of first] obtain err where
      p: "Promise_all first [e, c, m] = Throws err"
      and w: "e = Throws err \<or> c = Throws err \<or> m = Throws err"
      by blast
    from p have s: "st' = st1\<lparr>error := (if err_message err \<noteq> [] then err_message err
        else ''Erro ao carregar''), events := JArr [], matches := JArr [], loading := False\<rparr>"
      by (simp add: st')
    from True have no: "\<not> (\<exists>er cr mr. e = Returns er \<and> c = Returns cr \<and> m = Returns mr)"
      by auto
    from s have "\<not> loading st'" "error st' \<noteq> []" "events st' = JArr []" "matches st' = JArr []"
      "error st' = (if err_message err \<noteq> [] then err_message err else ''Erro ao carregar'')"
      by simp_all
    with w no show ?thesis by blast
  next
    case False
    with compl obtain er cr mr where r: "e = Returns er" "c = Returns cr" "m = Returns mr"
      by blast
    then have "Promise_all first [e, c, m] = Returns [er, cr, mr]"
      by (simp add: Promise_all_returns)
    then have s: "st' = st1\<lparr>events := items_of er, config := cr, matches := items_of mr,
        loading := False\<rparr>"
      by (simp add: st')
    then have "\<not> loading st'" "events st' = items_of er" "config st' = cr"
      "matches st' = items_of mr"
      by simp_all
    with r False show ?thesis by blast
  qed
  show ?thesis
    unfolding Let_def e_def [symmetric] c_def [symmetric] m_def [symmetric] st'_def [symmetric]
    using main items_of_cases by blast
qed
lemma api_resolved_payload:
  assumes "api_request c = Inr po" "settle_time net = Some t" "t \<le> 30000"
    "settle_result net = Resolves r" "decoded_payload r = Some payload"
  shows "fst (api net c calls) =
           (if resp_ok r then Returns payload else Throws (response_error r payload))"
  using assms(1) request_resolved_payload [OF assms(2-5), of "fst po" "snd po" calls]
  by (cases po) (simp add: api_def)

theorem loadData_outcomes_witness:
  "events (fst (loadData
      \<lparr>settle_time = Some 80, settle_result = Resolves \<lparr>resp_ok = True, resp_status = 200,
         resp_content_type = Some ''application/json'',
         resp_json = BodyJson (JArr [JObj [(''id'', JNum (Fin 1))]])\<rparr>\<rparr>
      \<lparr>settle_time = Some 90, settle_result = Resolves \<lparr>resp_ok = True, resp_status = 200,
         resp_content_type = Some ''application/json'',
         resp_json = BodyJson (JObj [(''bankroll'', JNum (Fin 1000))])\<rparr>\<rparr>
      \<lparr>settle_time = Some 70, settle_result = Resolves \<lparr>resp_ok = True, resp_status = 200,
         resp_content_type = Some ''application/json'',
         resp_json = BodyJson (JObj [(''items'', JArr [JObj [(''id'', JNum (Fin 9))]])])\<rparr>\<rparr>
      0
      (\<lparr>matches = JArr [], events = JArr [], config = JNull, loading = False, error = [],
        eventFilter = [], statusFilter = [], dateFrom = [], dateTo = [], fromYear = Fin 2026\<rparr>,
       []))) = JArr [JObj [(''id'', JNum (Fin 1))]] \<and>
   matches (fst (loadData
      \<lparr>settle_time = Some 80, settle_result = Resolves \<lparr>resp_ok = True, resp_status = 200,
         resp_content_type = Some ''application/json'',
         resp_json = BodyJson (JArr [JObj [(''id'', JNum (Fin 1))]])\<rparr>\<rparr>
      \<lparr>settle_time = Some 90, settle_result = Resolves \<lparr>resp_ok = True, resp_status = 200,
         resp_content_type = Some ''application/json'',
         resp_json = BodyJson (JObj [(''bankroll'', JNum (Fin 1000))])\<rparr>\<rparr>
      \<lparr>settle_time = Some 70, settle_result = Resolves \<lparr>resp_ok = True, resp_status = 200,
         resp_content_type = Some ''application/json'',
         resp_json = BodyJson (JObj [(''items'', JArr [JObj [(''id'', JNum (Fin 9))]])])\<rparr>\<rparr>
      0
      (\<lparr>matches = JArr [], events = JArr [], config = JNull, loading = False, error = [],
        eventFilter = [], statusFilter = [], dateFrom = [], dateTo = [], fromYear = Fin 2026\<rparr>,
       []))) = JArr [JObj [(''id'', JNum (Fin 9))]] \<and>
   error (fst (loadData
      \<lparr>settle_time = Some 80, settle_result = Resolves \<lparr>resp_ok = True, resp_status = 200,
         resp_content_type = Some ''application/json'',
         resp_json = BodyJson (JArr [JObj [(''id'', JNum (Fin 1))]])\<rparr>\<rparr>
      \<lparr>settle_time = Some 90, settle_result = Resolves \<lparr>resp_ok = False, resp_status = 500,
         resp_content_type = Some ''application/json'',
         resp_json = BodyJson (JObj [(''detail'', JStr ''boom'')])\<rparr>\<rparr>
      \<lparr>settle_time = Some 70, settle_result = Resolves \<lparr>resp_ok = True, resp_status = 200,
         resp_content_type = Some ''application/json'',
         resp_json = BodyJson (JObj [(''items'', JArr [JObj [(''id'', JNum (Fin 9))]])])\<rparr>\<rparr>
      0
      (\<lparr>matches = JArr [JNull], events = JArr [JNull], config = JNull, loading = False, error = [],
        eventFilter = [], statusFilter = [], dateFrom = [], dateTo = [], fromYear = Fin 2026\<rparr>,
       []))) = ''boom'' \<and>
   events (fst (loadData
      \<lparr>settle_time = Some 80, settle_result = Resolves \<lparr>resp_ok = True, resp_status = 200,
         resp_content_type = Some ''application/json'',
         resp_json = BodyJson (JArr [JObj [(''id'', JNum (Fin 1))]])\<rparr>\<rparr>
      \<lparr>settle_time = Some 90, settle_result = Resolves \<lparr>resp_ok = False, resp_status = 500,
         resp_content_type = Some ''application/json'',
         resp_json = BodyJson (JObj [(''detail'', JStr ''boom'')])\<rparr>\<rparr>
      \<lparr>settle_time = Some 70, settle_result = Resolves \<lparr>resp_ok = True, resp_status = 200,
         resp_content_type = Some ''application/json'',
         resp_json = BodyJson (JObj [(''items'', JArr [JObj [(''id'', JNum (Fin 9))]])])\<rparr>\<rparr>
      0
      (\<lparr>matches = JArr [JNull], events = JArr [JNull], config = JNull, loading = False, error = [],
        eventFilter = [], statusFilter = [], dateFrom = [], dateTo = [], fromYear = Fin 2026\<rparr>,
       []))) = JArr []"
proof -
  define rE where "rE = \<lparr>resp_ok = True, resp_status = 200,
      resp_content_type = Some ''application/json'',
      resp_json = BodyJson (JArr [JObj [(''id'', JNum (Fin 1))]])\<rparr>"
  define rC where "rC = \<lparr>resp_ok = True, resp_status = 200,
      resp_content_type = Some ''application/json'',
      resp_json = BodyJson (JObj [(''bankroll'', JNum (Fin 1000))])\<rparr>"
  define rM where "rM = \<lparr>resp_ok = True, resp_status = 200,
      resp_content_type = Some ''application/json'',
      resp_json = BodyJson (JObj [(''items'', JArr [JObj [(''id'', JNum (Fin 9))]])])\<rparr>"
  define rB where "rB = \<lparr>resp_ok = False, resp_status = 500,
      resp_content_type = Some ''application/json'',
      resp_json = BodyJson (JObj [(''detail'', JStr ''boom'')])\<rparr>"
  define nE where "nE = \<lparr>settle_time = Some 80, settle_result = Resolves rE\<rparr>"
  define nC where "nC = \<lparr>settle_time = Some 90, settle_result = Resolves rC\<rparr>"
  define nM where "nM = \<lparr>settle_time = Some 70, settle_result = Resolves rM\<rparr>"
  define nB where "nB = \<lparr>settle_time = Some 90, settle_result = Resolves rB\<rparr>"
  define s0 where "s0 = \<lparr>matches = JArr [], events = JArr [], config = JNull, loading = False,
      error = [], eventFilter = [], statusFilter = [], dateFrom = [], dateTo = [],
      fromYear = Fin 2026\<rparr>"
  define s1 where "s1 = \<lparr>matches = JArr [JNull], events = JArr [JNull], config = JNull,
      loading = False, error = [], eventFilter = [], statusFilter = [], dateFrom = [], dateTo = [],
      fromYear = Fin 2026\<rparr>"
  have j: "str_includes ''application/json'' ''application/json''" by code_simp
  have d: "decoded_payload rE = Some (JArr [JObj [(''id'', JNum (Fin 1))]])"
    "decoded_payload rC = Some (JObj [(''bankroll'', JNum (Fin 1000))])"
    "decoded_payload rM = Some (JObj [(''items'', JArr [JObj [(''id'', JNum (Fin 9))]])])"
    "decoded_payload rB = Some (JObj [(''detail'', JStr ''boom'')])"
    by (simp_all add: decoded_payload_def isJson_def rE_def rC_def rM_def rB_def j)
  have q: "\<exists>po. api_request (getEvents (JObj [(''fromYear'', JNum (Fin 2026))])) = Inr po"
    "\<exists>po. api_request getConfig = Inr po"
    "\<exists>po. api_request (getMatches (matches_params s0)) = Inr po"
    "\<exists>po. api_request (getMatches (matches_params s1)) = Inr po"
    by (simp_all add: default_param_def is_nullish_def matches_params_def Let_def)
  have e: "fst (api nE (getEvents (JObj [(''fromYear'', JNum (Fin 2026))])) []) =
      Returns (JArr [JObj [(''id'', JNum (Fin 1))]])"
    using q(1) api_resolved_payload [of _ _ nE 80 rE _ "[]"] d(1) by (auto simp: nE_def rE_def)
  have c: "fst (api nC getConfig []) = Returns (JObj [(''bankroll'', JNum (Fin 1000))])"
    using q(2) api_resolved_payload [of _ _ nC 90 rC _ "[]"] d(2) by (auto simp: nC_def rC_def)
  have m0: "fst (api nM (getMatches (matches_params s0)) []) =
      Returns (JObj [(''items'', JArr [JObj [(''id'', JNum (Fin 9))]])])"
    using q(3) api_resolved_payload [of _ _ nM 70 rM _ "[]"] d(3) by (auto simp: nM_def rM_def)
  have m1: "fst (api nM (getMatches (matches_params s1)) []) =
      Returns (JObj [(''items'', JArr [JObj [(''id'', JNum (Fin 9))]])])"
    using q(4) api_resolved_payload [of _ _ nM 70 rM _ "[]"] d(3) by (auto simp: nM_def rM_def)
  have b: "fst (api nB getConfig []) =
      Throws (response_error rB (JObj [(''detail'', JStr ''boom'')]))"
    using q(2) api_resolved_payload [of _ _ nB 90 rB _ "[]"] d(4) by (auto simp: nB_def rB_def)
  have bm: "err_message (response_error rB (JObj [(''detail'', JStr ''boom'')])) = ''boom''"
    using response_error_message [of "JObj [(''detail'', JStr ''boom'')]" rB]
    by (simp add: opt_prop_def is_nullish_def get_prop_def)
  have i: "items_of (JArr [JObj [(''id'', JNum (Fin 1))]]) = JArr [JObj [(''id'', JNum (Fin 1))]]"
    "items_of (JObj [(''items'', JArr [JObj [(''id'', JNum (Fin 9))]])]) =
       JArr [JObj [(''id'', JNum (Fin 9))]]"
    by (simp_all add: items_of_def nullish_or_def opt_prop_def get_prop_def is_nullish_def)
  have f0: "fromYear s0 = Fin 2026" "fromYear s1 = Fin 2026" by (simp_all add: s0_def s1_def)
  note T0 = loadData_outcomes [of nE s0 nC nM 0 "[]", unfolded Let_def f0 e c m0]
  note T1 = loadData_outcomes [of nE s1 nB nM 0 "[]", unfolded Let_def f0 e b m1]
  from T0 have ok: "events (fst (loadData nE nC nM 0 (s0, []))) = JArr [JObj [(''id'', JNum (Fin 1))]]"
    "matches (fst (loadData nE nC nM 0 (s0, []))) = JArr [JObj [(''id'', JNum (Fin 9))]]"
    by (auto simp: i)
  from T1 have bad: "error (fst (loadData nE nB nM 0 (s1, []))) = ''boom''"
    "events (fst (loadData nE nB nM 0 (s1, []))) = JArr []"
    by (auto simp: bm)
  from ok bad show ?thesis
    unfolding nE_def nC_def nM_def nB_def rE_def rC_def rM_def rB_def s0_def s1_def by blast
qed

section \<open>The formatting helpers leave the store as it is\<close>

lemma sort_key_JStr: "sort_key ToString (map JStr xs) = map JStr (sort xs)"
proof (induction xs)
  case Nil
  show ?case by simp
next
  case (Cons x xs)
  have ins: "insort_key ToString (JStr x) (map JStr ys) = map JStr (insort x ys)" for ys
    by (induction ys) simp_all
  from Cons show ?case by (simp add: ins)
qed

lemma deref_append: "in_store h x \<Longrightarrow> deref (h @ h') x = deref h x"
  by (cases x) (simp_all add: in_store_def deref_def nth_append)

lemma in_store_append: "in_store h x \<Longrightarrow> in_store (h @ h') x"
  by (cases x) (simp_all add: in_store_def)

lemma seriesChartData_store_steps:
  assumes obj: "ToBoolean (deref h scoreProbs)" "typeof (deref h scoreProbs) = ''object''"
    and sp: "in_store h scoreProbs"
    and ord: "order = (if deref h format = JStr ''Bo5'' then BO5_ORDER_ref env else BO3_ORDER_ref env)"
      "order < length h"
  shows "seriesChartData_store env scoreProbs format h =
     (let ordered = filter (\<lambda>s. \<not> is_nullish (get_prop (deref h scoreProbs) (ToString s)))
                      (elements (h ! order));
          keys = map JStr (Object_keys (deref h scoreProbs));
          rest = sort_key ToString (filter (\<lambda>s. s \<notin> set (elements (h ! order))) keys);
          allKeys = ordered @ rest
      in (Ref (length h + 4),
          h @ [JArr ordered, JArr keys, JArr rest, JArr allKeys,
               JArr (map (chart_entry_object (deref h scoreProbs)) allKeys)]))"
proof -
  define ordered where "ordered = filter (\<lambda>s. \<not> is_nullish (get_prop (deref h scoreProbs) (ToString s)))
      (elements (h ! order))"
  define keys where "keys = map JStr (Object_keys (deref h scoreProbs))"
  define unordered where "unordered = filter (\<lambda>s. s \<notin> set (elements (h ! order))) keys"
  define h1 where "h1 = h @ [JArr ordered]"
  define h2 where "h2 = h1 @ [JArr keys]"
  define h3 where "h3 = h2 @ [JArr unordered]"
  define h4 where "h4 = h2 @ [JArr (sort_key ToString unordered)]"
  define h5 where "h5 = h4 @ [JArr (ordered @ sort_key ToString unordered)]"
  have s1: "array_filter (\<lambda>s. \<not> is_nullish (get_prop (deref h scoreProbs) (ToString s))) (Ref order) h =
      (Ref (length h), h1)"
    using ord(2) by (simp add: array_filter_def alloc_def deref_def ordered_def h1_def)
  have sp1: "deref h1 scoreProbs = deref h scoreProbs" "in_store h1 scoreProbs"
    using sp by (simp_all add: h1_def deref_append in_store_append)
  have s2: "Object_keys_store scoreProbs h1 = (Ref (length h1), h2)"
    by (simp add: Object_keys_store_def alloc_def sp1 keys_def h2_def)
  have o2: "deref h2 (Ref order) = h ! order"
    using ord(2) by (simp add: deref_def h2_def h1_def nth_append)
  have k: "deref h2 (Ref (length h1)) = JArr keys"
    by (simp add: deref_def h2_def)
  have s3: "array_filter (\<lambda>s. \<not> array_includes (deref h2 (Ref order)) s) (Ref (length h1)) h2 =
      (Ref (length h2), h3)"
    unfolding array_filter_def alloc_def k o2 array_includes_def
    by (simp add: elements_def unordered_def h3_def)
  have s4: "array_sort (Ref (length h2)) h3 = (Ref (length h2), h4)"
    by (simp add: array_sort_def h3_def h4_def elements_def)
  have s5: "array_concat (Ref (length h)) (Ref (length h2)) h4 = (Ref (length h4), h5)"
    by (simp add: array_concat_def alloc_def deref_def h5_def)
      (simp add: h4_def h2_def h1_def nth_append elements_def)
  have sp5: "deref h5 scoreProbs = deref h scoreProbs"
    using sp by (simp add: h5_def h4_def h2_def h1_def deref_append in_store_append)
  have a5: "deref h5 (Ref (length h4)) = JArr (ordered @ sort_key ToString unordered)"
    by (simp add: deref_def h5_def)
  have s6: "array_map (chart_entry_object (deref h5 scoreProbs)) (Ref (length h4)) h5 =
      (Ref (length h5), h5 @ [JArr (map (chart_entry_object (deref h scoreProbs))
         (ordered @ sort_key ToString unordered))])"
    unfolding array_map_def alloc_def a5 sp5 by (simp add: elements_def)
  have "seriesChartData_store env scoreProbs format h =
      (Ref (length h5), h5 @ [JArr (map (chart_entry_object (deref h scoreProbs))
         (ordered @ sort_key ToString unordered))])"
    unfolding seriesChartData_store_def using obj
    by (simp add: ord(1) [symmetric] s1 s2 s3 s4 s5 s6 del: deref_def)
  then show ?thesis
    unfolding Let_def ordered_def [symmetric] keys_def [symmetric] unordered_def [symmetric]
    by (simp add: h5_def h4_def h2_def h1_def)
qed
lemma seriesChartData_store_result:
  assumes env: "module_loaded env h" and sp: "in_store h scoreProbs"
  shows "\<exists>new. seriesChartData_store env scoreProbs format h = (Ref (length h + length new), h @ new @
           [JArr (map entry_object (seriesChartData (deref h scoreProbs) (deref h format)))])"
proof (cases "ToBoolean (deref h scoreProbs) \<and> typeof (deref h scoreProbs) = ''object''")
  case False
  then have "seriesChartData_store env scoreProbs format h = (Ref (length h), h @ [JArr []])"
    by (auto simp: seriesChartData_store_def alloc_def)
  moreover from False have "seriesChartData (deref h scoreProbs) (deref h format) = []"
    by (auto simp: seriesChartData_def)
  ultimately show ?thesis by (intro exI [of _ "[]"]) simp
next
  case True
  define names where "names = (if deref h format = JStr ''Bo5'' then BO5_ORDER else BO3_ORDER)"
  define order where
    "order = (if deref h format = JStr ''Bo5'' then BO5_ORDER_ref env else BO3_ORDER_ref env)"
  define sp where "sp = deref h scoreProbs"
  from env have o: "order < length h" and el: "elements (h ! order) = map JStr names"
    by (auto simp: module_loaded_def order_def names_def elements_def)
  define ordered where "ordered = filter (\<lambda>s. \<not> is_nullish (get_prop sp s)) names"
  define rest where "rest = sort (filter (\<lambda>s. s \<notin> set names) (Object_keys sp))"
  have f1: "filter (\<lambda>s. \<not> is_nullish (get_prop sp (ToString s))) (map JStr names) = map JStr ordered"
    by (simp add: ordered_def filter_map comp_def)
  have f2: "filter (\<lambda>s. s \<notin> set (map JStr names)) (map JStr (Object_keys sp)) =
      map JStr (filter (\<lambda>s. s \<notin> set names) (Object_keys sp))"
  proof -
    have "JStr x \<notin> JStr ` set names \<longleftrightarrow> x \<notin> set names" for x
      by auto
    then show ?thesis by (simp add: filter_map comp_def)
  qed
  have f3: "sort_key ToString (map JStr (filter (\<lambda>s. s \<notin> set names) (Object_keys sp))) = map JStr rest"
    by (simp add: sort_key_JStr rest_def)
  have m: "map (chart_entry_object sp) (map JStr (ordered @ rest)) =
      map entry_object (seriesChartData sp (deref h format))"
    using True
    by (simp add: seriesChartData_def Let_def sp_def [symmetric] names_def [symmetric]
        ordered_def [symmetric] rest_def [symmetric] chart_entry_object_def entry_object_def comp_def)
  from seriesChartData_store_steps [OF True [THEN conjunct1] True [THEN conjunct2] assms(2)
      order_def o, unfolded Let_def el sp_def [symmetric] f1 f2 f3]
  have "seriesChartData_store env scoreProbs format h =
      (Ref (length h + 4),
       h @ [JArr (map JStr ordered), JArr (map JStr (Object_keys sp)), JArr (map JStr rest),
            JArr (map JStr ordered @ map JStr rest),
            JArr (map (chart_entry_object sp) (map JStr ordered @ map JStr rest))])" .
  with m show ?thesis
    by (intro exI [of _ "[JArr (map JStr ordered), JArr (map JStr (Object_keys sp)),
          JArr (map JStr rest), JArr (map JStr ordered @ map JStr rest)]"])
      (simp add: sp_def)
qed

lemma inferSeriesFormatFromScoreProbs_store_result:
  "\<exists>new. inferSeriesFormatFromScoreProbs_store scoreProbs h =
     (inferSeriesFormatFromScoreProbs (deref h scoreProbs), h @ new)"
proof (cases "ToBoolean (deref h scoreProbs) \<and> typeof (deref h scoreProbs) = ''object''")
  case False
  then show ?thesis
    by (intro exI [of _ "[]"])
      (auto simp: inferSeriesFormatFromScoreProbs_store_def inferSeriesFormatFromScoreProbs_def)
next
  case True
  have "deref (h @ [JArr (map JStr (Object_keys (deref h scoreProbs)))]) (Ref (length h)) =
      JArr (map JStr (Object_keys (deref h scoreProbs)))"
    by (simp add: deref_def)
  with True show ?thesis
    by (intro exI [of _ "[JArr (map JStr (Object_keys (deref h scoreProbs)))]"])
      (simp add: inferSeriesFormatFromScoreProbs_store_def inferSeriesFormatFromScoreProbs_def
        Object_keys_store_def alloc_def Let_def elements_def list_ex_iff del: deref_def)
qed
lemma module_loaded_append: "module_loaded env h \<Longrightarrow> module_loaded env (h @ h')"
  by (simp add: module_loaded_def nth_append)

text \<open>
  C3. In a store that holds the two arrays of the module, and for arguments that are
  primitives or existing objects: \<open>formatBoType\<close> and \<open>resolveBoType\<close> leave the store as
  it is; \<open>inferSeriesFormatFromScoreProbs\<close> and \<open>seriesChartData\<close> only add new objects and
  leave every existing one, the argument and the module's arrays among them, as it was
  (the array that \<open>sort\<close> reorders is a new one). The result of each helper is the
  function of the contents of its arguments defined above, so a second evaluation gives
  an equal result: the same string, or for \<open>seriesChartData\<close> a new array with the same
  contents as the first.
\<close>

theorem helpers_pure:
  "module_loaded env h \<and> in_store h scoreProbs \<and> in_store h format \<longrightarrow>
     formatBoType_store boType h = (formatBoType (deref h boType), h) \<and>
     resolveBoType_store boType score1 score2 h =
       (resolveBoType (deref h boType) (deref h score1) (deref h score2), h) \<and>
     (\<exists>h1 h2. inferSeriesFormatFromScoreProbs_store scoreProbs h =
                 (inferSeriesFormatFromScoreProbs (deref h scoreProbs), h1) \<and>
              inferSeriesFormatFromScoreProbs_store scoreProbs h1 =
                 (inferSeriesFormatFromScoreProbs (deref h scoreProbs), h2) \<and>
              take (length h) h1 = h \<and> take (length h1) h2 = h1) \<and>
     (\<exists>r1 h1 r2 h2. seriesChartData_store env scoreProbs format h = (r1, h1) \<and>
              seriesChartData_store env scoreProbs format h1 = (r2, h2) \<and>
              take (length h) h1 = h \<and> take (length h1) h2 = h1 \<and>
              deref h1 r1 =
                JArr (map entry_object (seriesChartData (deref h scoreProbs) (deref h format))) \<and>
              deref h2 r2 = deref h2 r1 \<and> r1 \<noteq> r2)"
proof (intro impI conjI)
  assume a: "module_loaded env h \<and> in_store h scoreProbs \<and> in_store h format"
  show "formatBoType_store boType h = (formatBoType (deref h boType), h)"
    by (simp add: formatBoType_store_def)
  show "resolveBoType_store boType score1 score2 h =
      (resolveBoType (deref h boType) (deref h score1) (deref h score2), h)"
    by (simp add: resolveBoType_store_def)
  show "\<exists>h1 h2. inferSeriesFormatFromScoreProbs_store scoreProbs h =
                 (inferSeriesFormatFromScoreProbs (deref h scoreProbs), h1) \<and>
              inferSeriesFormatFromScoreProbs_store scoreProbs h1 =
                 (inferSeriesFormatFromScoreProbs (deref h scoreProbs), h2) \<and>
              take (length h) h1 = h \<and> take (length h1) h2 = h1"
  proof -
    from inferSeriesFormatFromScoreProbs_store_result [of scoreProbs h] obtain n1 where
      1: "inferSeriesFormatFromScoreProbs_store scoreProbs h =
          (inferSeriesFormatFromScoreProbs (deref h scoreProbs), h @ n1)"
      by blast
    from inferSeriesFormatFromScoreProbs_store_result [of scoreProbs "h @ n1"] obtain n2 where
      2: "inferSeriesFormatFromScoreProbs_store scoreProbs (h @ n1) =
          (inferSeriesFormatFromScoreProbs (deref (h @ n1) scoreProbs), (h @ n1) @ n2)"
      by blast
    from a have "deref (h @ n1) scoreProbs = deref h scoreProbs" by (simp add: deref_append)
    with 1 2 show ?thesis
      by (intro exI [of _ "h @ n1"] exI [of _ "(h @ n1) @ n2"]) simp
  qed
  show "\<exists>r1 h1 r2 h2. seriesChartData_store env scoreProbs format h = (r1, h1) \<and>
              seriesChartData_store env scoreProbs format h1 = (r2, h2) \<and>
              take (length h) h1 = h \<and> take (length h1) h2 = h1 \<and>
              deref h1 r1 =
                JArr (map entry_object (seriesChartData (deref h scoreProbs) (deref h format))) \<and>
              deref h2 r2 = deref h2 r1 \<and> r1 \<noteq> r2"
  proof -
    define R where
      "R = JArr (map entry_object (seriesChartData (deref h scoreProbs) (deref h format)))"
    from a seriesChartData_store_result [of env h scoreProbs format] obtain n1 where
      1: "seriesChartData_store env scoreProbs format h = (Ref (length h + length n1), h @ n1 @ [R])"
      unfolding R_def by blast
    define h1 where "h1 = h @ n1 @ [R]"
    from a have l: "module_loaded env h1" "in_store h1 scoreProbs"
      and d: "deref h1 scoreProbs = deref h scoreProbs" "deref h1 format = deref h format"
      by (simp_all add: h1_def module_loaded_append in_store_append deref_append)
    from l seriesChartData_store_result [of env h1 scoreProbs format] obtain n2 where
      2: "seriesChartData_store env scoreProbs format h1 =
          (Ref (length h1 + length n2), h1 @ n2 @ [R])"
      unfolding R_def d by blast
    define h2 where "h2 = h1 @ n2 @ [R]"
    have "deref h1 (Ref (length h + length n1)) = R"
      by (simp add: deref_def h1_def nth_append)
    moreover have "deref h2 (Ref (length h1 + length n2)) = R"
      by (simp add: deref_def h2_def nth_append)
    moreover have "deref h2 (Ref (length h + length n1)) = R"
      by (simp add: deref_def h2_def h1_def nth_append)
    moreover have "Ref (length h + length n1) \<noteq> Ref (length h1 + length n2)"
      by (simp add: h1_def)
    moreover have "take (length h) h1 = h" "take (length h1) h2 = h1"
      by (simp_all add: h1_def h2_def)
    ultimately show ?thesis
      using 1 2 unfolding h1_def [symmetric] h2_def [symmetric] R_def [symmetric]
      by (intro exI [of _ "Ref (length h + length n1)"] exI [of _ h1]
          exI [of _ "Ref (length h1 + length n2)"] exI [of _ h2]) simp
  qed
qed

theorem helpers_pure_witness:
  "module_loaded \<lparr>BO3_ORDER_ref = 0, BO5_ORDER_ref = 1\<rparr>
     [JArr (map JStr BO3_ORDER), JArr (map JStr BO5_ORDER),
      JObj [(''draw'', JNull), (''2-0'', JNum (Fin (1 / 2)))]] \<and>
   in_store [JArr (map JStr BO3_ORDER), JArr (map JStr BO5_ORDER),
      JObj [(''draw'', JNull), (''2-0'', JNum (Fin (1 / 2)))]] (Ref 2) \<and>
   take 3 (snd (seriesChartData_store \<lparr>BO3_ORDER_ref = 0, BO5_ORDER_ref = 1\<rparr> (Ref 2)
      (Prim (JStr ''Bo3''))
      [JArr (map JStr BO3_ORDER), JArr (map JStr BO5_ORDER),
       JObj [(''draw'', JNull), (''2-0'', JNum (Fin (1 / 2)))]])) =
     [JArr (map JStr BO3_ORDER), JArr (map JStr BO5_ORDER),
      JObj [(''draw'', JNull), (''2-0'', JNum (Fin (1 / 2)))]] \<and>
   snd (formatBoType_store (Ref 2)
      [JArr (map JStr BO3_ORDER), JArr (map JStr BO5_ORDER),
       JObj [(''draw'', JNull), (''2-0'', JNum (Fin (1 / 2)))]]) =
     [JArr (map JStr BO3_ORDER), JArr (map JStr BO5_ORDER),
      JObj [(''draw'', JNull), (''2-0'', JNum (Fin (1 / 2)))]]"
proof -
  define h where "h = [JArr (map JStr BO3_ORDER), JArr (map JStr BO5_ORDER),
      JObj [(''draw'', JNull), (''2-0'', JNum (Fin (1 / 2)))]]"
  define env where "env = \<lparr>BO3_ORDER_ref = 0, BO5_ORDER_ref = 1\<rparr>"
  have l: "module_loaded env h" by (simp add: module_loaded_def env_def h_def)
  have i: "in_store h (Ref 2)" "in_store h (Prim (JStr ''Bo3''))"
    by (simp_all add: in_store_def h_def)
  have n: "length h = 3" by (simp add: h_def)
  note T = helpers_pure [of env h "Ref 2" "Prim (JStr ''Bo3'')" "Ref 2" "Prim JNull" "Prim JNull"]
  from T l i have "\<exists>r1 h1. seriesChartData_store env (Ref 2) (Prim (JStr ''Bo3'')) h = (r1, h1) \<and>
      take (length h) h1 = h"
    by blast
  then have 1: "take 3 (snd (seriesChartData_store env (Ref 2) (Prim (JStr ''Bo3'')) h)) = h"
    using n by auto
  from T l i have 2: "snd (formatBoType_store (Ref 2) h) = h"
    by simp
  from l i(1) 1 2 show ?thesis unfolding h_def env_def by blast
qed

end
